theory Spec2Isabelle
  imports Main
begin

section \<open>Data model (clients/serverless-types, scripts/deploy.ts)\<close>

text \<open>
  A version record of the Serverless API: the served path and the remote identifier.
  The field names of the later records carry a prefix where the source reuses the name
  \<open>sid\<close>, since a record field is a constant of the theory.
\<close>

record Version =
  path :: string
  sid :: string

record Build =
  build_sid :: string
  asset_versions :: "Version list"
  function_versions :: "Version list"
  dependencies :: "(string \<times> string) list"

record Service =
  service_sid :: string
  account_sid :: string

record Environment =
  environment_sid :: string
  domain_name :: string

record Runtime =
  service :: Service
  environment :: "Environment option"
  build :: "Build option"

record Options =
  isPublic :: bool
  overwrite :: bool
  disallowVersioning :: bool
  isPluginsPilot :: bool

record Credential =
  username :: string
  password :: string

text \<open>The data handed to \<open>BuildClient.create\<close>, and the resources the writers answer with.\<close>

record BuildData =
  FunctionVersions :: "string list"
  AssetVersions :: "string list"
  Dependencies :: "(string \<times> string) list"

record Deployment =
  deployment_sid :: string

record Account =
  acct_sid :: string

section \<open>JavaScript strings\<close>

text \<open>
  A value that is a string, \<open>undefined\<close> or \<open>null\<close>: \<open>argv[1]\<close> of a short argument
  vector is \<open>undefined\<close>, and \<open>semver.inc\<close> answers \<open>null\<close> for a version it cannot
  parse. \<open>truthy\<close> is JavaScript's truthiness of such a value, \<open>js_string\<close> its
  conversion inside a template string or as an argument of \<open>String.prototype.replace\<close>.
\<close>

datatype jstring = JUndefined | JNull | JString string

fun truthy :: "jstring \<Rightarrow> bool" where
  "truthy JUndefined = False"
| "truthy JNull = False"
| "truthy (JString s) = (s \<noteq> [])"

fun js_string :: "jstring \<Rightarrow> string" where
  "js_string JUndefined = ''undefined''"
| "js_string JNull = ''null''"
| "js_string (JString s) = s"

text \<open>\<open>argv[i]\<close>: reading past the end of an array gives \<open>undefined\<close>.\<close>

definition argv_at :: "string list \<Rightarrow> nat \<Rightarrow> jstring" where
  "argv_at argv i = (if i < length argv then JString (argv ! i) else JUndefined)"

text \<open>\<open>Array.prototype.includes\<close> on an array of strings, for a value that may be undefined.\<close>

definition js_includes :: "string list \<Rightarrow> jstring \<Rightarrow> bool" where
  "js_includes xs v = (case v of JString s \<Rightarrow> s \<in> set xs | _ \<Rightarrow> False)"

text \<open>\<open>Array.prototype.join\<close>.\<close>

fun join :: "string \<Rightarrow> string list \<Rightarrow> string" where
  "join sep [] = []"
| "join sep [x] = x"
| "join sep (x # y # ys) = x @ sep @ join sep (y # ys)"

text \<open>
  \<open>String.prototype.replace\<close> with a string pattern: the first occurrence of the pattern
  is replaced, and the replacement is expanded first: \<open>$$\<close> is a dollar sign, \<open>$&\<close> the
  matched text, \<open>$`\<close> the text before the match and \<open>$'\<close> the text after it. A string
  pattern has no capture groups, so any other use of the dollar sign stays as it is.
\<close>

fun find_first :: "string \<Rightarrow> string \<Rightarrow> (string \<times> string) option" where
  "find_first pat [] = (if pat = [] then Some ([], []) else None)"
| "find_first pat (c # cs) =
     (if take (length pat) (c # cs) = pat then Some ([], drop (length pat) (c # cs))
      else (case find_first pat cs of
              None \<Rightarrow> None
            | Some (front, back) \<Rightarrow> Some (c # front, back)))"

fun substitution :: "string \<Rightarrow> string \<Rightarrow> string \<Rightarrow> string \<Rightarrow> string" where
  "substitution matched front back (c # d # r) =
     (if c = CHR 0x24 \<and> d = CHR 0x24 then CHR 0x24 # substitution matched front back r
      else if c = CHR 0x24 \<and> d = CHR ''&'' then matched @ substitution matched front back r
      else if c = CHR 0x24 \<and> d = CHR 0x60 then front @ substitution matched front back r
      else if c = CHR 0x24 \<and> d = CHR 0x27 then back @ substitution matched front back r
      else c # substitution matched front back (d # r))"
| "substitution matched front back r = r"

definition js_replace :: "string \<Rightarrow> string \<Rightarrow> string \<Rightarrow> string" where
  "js_replace s pat replacement =
     (case find_first pat s of
        None \<Rightarrow> s
      | Some (front, back) \<Rightarrow> front @ substitution pat front back replacement @ back)"

text \<open>
  \<open>UIDependencies\<close> of clients/configuration-types: the optional entries \<open>react\<close> and
  \<open>react-dom\<close> of the dependency map; a missing entry reads as \<open>undefined\<close>.
\<close>

record UIDependencies =
  react :: jstring
  react_dom :: jstring

record DeployResult =
  serviceSid :: string
  accountSid :: string
  environmentSid :: string
  domainName :: string
  result_isPublic :: bool
  nextVersion :: jstring
  pluginUrl :: string

section \<open>Errors, effects and the collaborators\<close>

text \<open>
  The text of a log line or of an error. \<open>singleLineString\<close> is a helper of
  flex-dev-utils/strings that is not among the sources: a text built by it keeps the
  list of its arguments.
\<close>

datatype message = Text string | SingleLineString "string list"

text \<open>
  An error is a value. \<open>FlexPluginError\<close> and \<open>UserActionError\<close> are the two error
  classes deploy.ts throws, \<open>JsError\<close> is JavaScript's \<open>Error\<close>, thrown by
  \<open>DeploymentClient\<close>, and \<open>Rejected\<close> is the rejection of a call to a collaborator,
  with whatever reason the collaborator gives.

  The specification's error kinds name the throw sites: \<open>InvalidArgument\<close> the two
  errors of \<open>deploy\<close>, \<open>PreconditionFailed\<close> the missing build file, the missing
  environment, the incompatible Flex UI version and the missing React entries,
  \<open>Conflict\<close> the path collision, \<open>Forbidden\<close> the missing pilot flag,
  \<open>UserRejected\<close> the \<open>UserActionError\<close>, \<open>RemoteError\<close> a rejection.
\<close>

datatype error =
    FlexPluginError message
  | UserActionError message
  | JsError string
  | Rejected string

text \<open>
  Every call that leaves the function is an event of the run's trace: the log, the
  prompt, the calls to the remote services and the write of the application version.
\<close>

datatype event =
    SetEnvironment "string list"
  | LoggerDebug string
  | LoggerInfo message
  | LoggerWarning message
  | LoggerNewline
  | Progress string
  | GetCredential
  | HasFlag
  | PluginsApiWarning
  | GetRuntime
  | GetFlexUIVersion
  | GetUIDependencies
  | Confirm string string
  | AssetUpload string string string bool
  | RegisterSid string
  | BuildCreate BuildData
  | HttpPost string string "(string \<times> string) list"
  | UpdateAppVersion jstring
  | AccountGet string
  | DeploySuccessful string bool string

text \<open>
  Modelled from the spec: the interactive prompt \<open>confirm(message, default) -> bool\<close> of
  flex-dev-utils/inquirer, which is not among the sources. The user answers yes, answers
  no, or gives no answer, which selects the default; the default \<open>Y\<close> is yes and any
  other default is no.
\<close>

datatype reply = ReplyYes | ReplyNo | ReplyDefault

definition confirm :: "reply \<Rightarrow> string \<Rightarrow> bool" where
  "confirm r defaultAnswer =
     (case r of ReplyYes \<Rightarrow> True | ReplyNo \<Rightarrow> False | ReplyDefault \<Rightarrow> defaultAnswer = ''Y'')"

text \<open>
  The version argument of \<open>semver.satisfies\<close> is a string or the object that
  \<open>semver.coerce\<close> returns; a coerced version has a major, a minor and a patch number.
\<close>

datatype SemVer = SemVer nat nat nat

datatype version_arg = VString string | VSemVer SemVer

text \<open>
  Everything the deploy script reads from outside is a field of the world of one run:
  \<^item> the semver library (\<open>coerce\<close>, \<open>satisfies\<close>, \<open>inc\<close>; \<open>None\<close> is \<open>null\<close>);
  \<^item> the local project: \<open>getPaths()\<close>, \<open>checkFilesExist\<close>, \<open>getPackageVersion\<close>
    (the version of a package that is installed locally) and the environment variable
    \<open>UNBUNDLED_REACT\<close>;
  \<^item> the user's answer to the prompt;
  \<^item> the helper \<open>isSidOfType\<close> of flex-dev-utils/sids and the base URL of the
    Serverless API, which are not among the sources;
  \<^item> the answers of the remote collaborators, each either a rejection with its reason
    or a value, and the constructors of the clients that are not among the sources,
    which may throw. \<open>PluginsApiClient.hasFlag\<close> answers false where its request fails,
    as its test says, so it has no rejection.
\<close>

record world =
  coerce :: "string \<Rightarrow> SemVer option"
  satisfies :: "version_arg \<Rightarrow> string \<Rightarrow> bool"
  inc :: "string \<Rightarrow> string \<Rightarrow> string option"
  app_name :: string
  app_version :: string
  app_bundlePath :: string
  app_sourceMapPath :: string
  assetBaseUrlTemplate :: string
  checkFilesExist :: "string \<Rightarrow> bool"
  getPackageVersion :: "string \<Rightarrow> string"
  UNBUNDLED_REACT :: "string option"
  user_reply :: reply
  isSidOfType :: "string \<Rightarrow> string \<Rightarrow> bool"
  ServiceClient_getBaseUrl :: string
  getCredential :: "string + Credential"
  hasFlag :: "Credential \<Rightarrow> bool"
  getRuntime :: "Credential \<Rightarrow> string + Runtime"
  new_ConfigurationClient :: "Credential \<Rightarrow> string + unit"
  new_BuildClient :: "Credential \<Rightarrow> string \<Rightarrow> string + unit"
  new_AssetClient :: "Credential \<Rightarrow> string \<Rightarrow> string + unit"
  new_AccountsClient :: "Credential \<Rightarrow> string + unit"
  new_PluginsApiClient :: "Credential \<Rightarrow> string + unit"
  getFlexUIVersion :: "string + string"
  getUIDependencies :: "string + UIDependencies"
  upload :: "string \<Rightarrow> string \<Rightarrow> string \<Rightarrow> bool \<Rightarrow> string + Version"
  registerSid :: "string \<Rightarrow> string + unit"
  build_create :: "BuildData \<Rightarrow> string + Build"
  http_post :: "string \<Rightarrow> string \<Rightarrow> (string \<times> string) list \<Rightarrow> string + Deployment"
  account_get :: "string \<Rightarrow> string + Account"

text \<open>
  A computation with effects gives the trace of its events and then either the error it
  threw or its value. \<open>io_bind\<close> is sequencing (\<open>await\<close>, or the next statement): an error
  ends the run and keeps the trace so far.
\<close>

type_synonym 'a io = "event list \<times> (error + 'a)"

definition io_return :: "'a \<Rightarrow> 'a io" where
  "io_return x = ([], Inr x)"

definition io_throw :: "error \<Rightarrow> 'a io" where
  "io_throw e = ([], Inl e)"

definition perform :: "event \<Rightarrow> unit io" where
  "perform ev = ([ev], Inr ())"

definition call :: "event \<Rightarrow> string + 'a \<Rightarrow> 'a io" where
  "call ev answer = ([ev], case answer of Inl reason \<Rightarrow> Inl (Rejected reason) | Inr x \<Rightarrow> Inr x)"

definition attempt :: "string + 'a \<Rightarrow> 'a io" where
  "attempt answer = ([], case answer of Inl reason \<Rightarrow> Inl (Rejected reason) | Inr x \<Rightarrow> Inr x)"

definition io_bind :: "'a io \<Rightarrow> ('a \<Rightarrow> 'b io) \<Rightarrow> 'b io" where
  "io_bind m f =
     (case snd m of
        Inl e \<Rightarrow> (fst m, Inl e)
      | Inr x \<Rightarrow> (fst m @ fst (f x), snd (f x)))"

text \<open>
  Modelled from the spec: \<open>progress(label, action)\<close> of flex-dev-utils, which is not among
  the sources: a wrapper that takes a label and an asynchronous operation, for the user's
  feedback only. It announces the label and runs the operation.
\<close>

definition progress :: "string \<Rightarrow> 'a io \<Rightarrow> 'a io" where
  "progress label action = io_bind (perform (Progress label)) (\<lambda>_. action)"

section \<open>The path collision detector\<close>

text \<open>
  \<open>_verifyPath\<close> of deploy.ts (an Isabelle name cannot start with an underscore).
  \<open>Array.prototype.every\<close> is \<open>list_all\<close>; the template strings are concatenations.
\<close>

definition checkPathIsUnused :: "string \<Rightarrow> string \<Rightarrow> Version \<Rightarrow> bool" where
  "checkPathIsUnused bundlePath sourceMapPath v =
     (path v \<noteq> bundlePath \<and> path v \<noteq> sourceMapPath)"

definition verifyPath :: "string \<Rightarrow> Build \<Rightarrow> bool" where
  "verifyPath baseUrl b =
     (let bundlePath = baseUrl @ ''/bundle.js'';
          sourceMapPath = baseUrl @ ''/bundle.js.map'';
          existingAssets = asset_versions b;
          existingFunctions = function_versions b
      in list_all (checkPathIsUnused bundlePath sourceMapPath) existingAssets
         \<and> list_all (checkPathIsUnused bundlePath sourceMapPath) existingFunctions)"

text \<open>The paths registered in a build: those of its asset versions and function versions.\<close>

definition build_paths :: "Build \<Rightarrow> string set" where
  "build_paths b = path ` set (asset_versions b) \<union> path ` set (function_versions b)"

section \<open>The compatibility validator\<close>

text \<open>
  \<open>_verifyFlexUIConfiguration\<close> of deploy.ts. \<open>flexUI\<close> is the Flex UI version of the
  account, \<open>deps\<close> the dependency map of the Flex project, \<open>allowReact\<close> whether the
  deploy supports unbundled React.
\<close>

definition verifyFlexUIConfiguration ::
  "world \<Rightarrow> string \<Rightarrow> UIDependencies \<Rightarrow> bool \<Rightarrow> unit io" where
  "verifyFlexUIConfiguration w flexUI deps allowReact =
     (let coerced = coerce w flexUI in
      if \<not> allowReact then io_return ()
      else
        let UISupports =
              (satisfies w (VString ''1.19.0'') flexUI
               \<or> (case coerced of None \<Rightarrow> False | Some c \<Rightarrow> satisfies w (VSemVer c) ''>=1.19.0''))
        in
        if \<not> UISupports then
          io_throw (FlexPluginError (SingleLineString
            [''We detected that your account is using Flex UI version '' @ flexUI
               @ '' which is incompatible'',
             ''with unbundled React. Please visit https://flex.twilio.com/admin/versioning and update to'',
             ''version 1.19 or above.'']))
        else if \<not> truthy (react deps) \<or> \<not> truthy (react_dom deps) then
          io_throw (FlexPluginError (Text
            ''To use unbundled React, you need to set the React version from the Developer page''))
        else
          let reactSupported =
                satisfies w (VString (getPackageVersion w ''react'')) (js_string (react deps));
              reactDOMSupported =
                satisfies w (VString (getPackageVersion w ''react-dom''))
                  (js_string (react_dom deps))
          in
          if \<not> reactSupported \<or> \<not> reactDOMSupported then
            io_bind (perform LoggerNewline) (\<lambda>_.
            io_bind (perform (LoggerWarning (SingleLineString
              [''The React version '' @ getPackageVersion w ''react'' @ '' installed locally'',
               ''is incompatible with the React version '' @ js_string (react deps)
                 @ '' installed on your Flex project.'']))) (\<lambda>_.
            io_bind (perform (LoggerInfo (SingleLineString
              [''Change your local React version or visit https://flex.twilio.com/admin/developers to'',
               ''change the React version installed on your Flex project.'']))) (\<lambda>_.
            io_bind (call (Confirm ''Do you still want to continue deploying?'' ''N'')
                       (Inr (confirm (user_reply w) ''N''))) (\<lambda>answer.
            if \<not> answer then
              io_bind (perform LoggerNewline) (\<lambda>_.
              io_throw (UserActionError (Text
                ''User rejected confirmation to deploy with mismatched React version.'')))
            else io_return ()))))
          else io_return ())"

section \<open>The account resolver\<close>

text \<open>\<open>_getAccount\<close> of deploy.ts; \<open>startsWith('AC')\<close> is a test on the first two characters.\<close>

definition getAccount :: "world \<Rightarrow> Runtime \<Rightarrow> Credential \<Rightarrow> Account io" where
  "getAccount w runtime credentials =
     io_bind (attempt (new_AccountsClient w credentials)) (\<lambda>_.
     if take 2 (username credentials) = ''AC'' then
       call (AccountGet (account_sid (service runtime)))
         (account_get w (account_sid (service runtime)))
     else io_return \<lparr> acct_sid = account_sid (service runtime) \<rparr>)"

section \<open>The deployment client\<close>

text \<open>
  \<open>DeploymentClient\<close> (clients/deployments). The constructor hands the credential and
  the base URL to \<open>BaseClient\<close> and then checks the two sids (\<open>svcSid\<close> and \<open>envSid\<close> are
  its parameters \<open>serviceSid\<close> and \<open>environmentSid\<close>); \<open>create\<close> checks the build
  sid and then posts.
\<close>

record DeploymentClient =
  client_auth :: Credential
  client_baseUrl :: string

definition DeploymentClient_BaseUri :: string where
  "DeploymentClient_BaseUri = ''Deployments''"

text \<open>
  Modelled from the spec: \<open>SidPrefix.BuildSid\<close>, a member of an enumeration of
  flex-dev-utils/sids that is not among the sources. It is the sid type of a build, \<open>ZB\<close>.
\<close>

definition SidPrefix_BuildSid :: string where
  "SidPrefix_BuildSid = ''ZB''"

definition new_DeploymentClient ::
  "world \<Rightarrow> Credential \<Rightarrow> string \<Rightarrow> string \<Rightarrow> DeploymentClient io" where
  "new_DeploymentClient w auth svcSid envSid =
     (let this = \<lparr> client_auth = auth,
                   client_baseUrl = ServiceClient_getBaseUrl w @ ''/Services/'' @ svcSid
                     @ ''/Environments/'' @ envSid \<rparr>
      in
      if \<not> isSidOfType w svcSid ''ZS'' then
        io_throw (JsError (''ServiceSid '' @ svcSid @ '' is not valid''))
      else if \<not> isSidOfType w envSid ''ZE'' then
        io_throw (JsError (''EnvironmentSid '' @ envSid @ '' is not valid''))
      else io_return this)"

definition DeploymentClient_create ::
  "world \<Rightarrow> DeploymentClient \<Rightarrow> string \<Rightarrow> Deployment io" where
  "DeploymentClient_create w this buildSid =
     (if \<not> isSidOfType w buildSid SidPrefix_BuildSid then
        io_throw (JsError (buildSid @ '' is not of type '' @ SidPrefix_BuildSid))
      else
        call (HttpPost (client_baseUrl this) DeploymentClient_BaseUri [(''BuildSid'', buildSid)])
          (http_post w (client_baseUrl this) DeploymentClient_BaseUri [(''BuildSid'', buildSid)]))"

section \<open>The deployment orchestrator\<close>

text \<open>
  The closure that \<open>_doDeploy\<close> runs under the label
  \<open>Validating the new plugin bundle\<close>: the check for duplicate routes.
\<close>

definition validateBundle :: "Options \<Rightarrow> Runtime \<Rightarrow> string \<Rightarrow> string \<Rightarrow> bool io" where
  "validateBundle options runtime pluginBaseUrl pluginUrl' =
     (let collision = (case build runtime of
                         Some b \<Rightarrow> \<not> verifyPath pluginBaseUrl b
                       | None \<Rightarrow> False)
      in
      io_bind
        (if collision then
           (if overwrite options then
              (if \<not> disallowVersioning options then
                 io_bind (perform LoggerNewline) (\<lambda>_.
                 perform (LoggerWarning (Text
                   ''Plugin already exists and the flag --overwrite is going to overwrite this plugin.'')))
               else io_return ())
            else
              io_throw (FlexPluginError (Text
                (''You already have a plugin with the same version: '' @ pluginUrl'))))
         else io_return ())
        (\<lambda>_. io_return collision))"

text \<open>
  The closure run under the label \<open>Uploading your plugin bundle\<close>: the two uploads and
  the composition of the data of the new build. \<open>push\<close> appends to the list.
\<close>

definition uploadBundle ::
  "world \<Rightarrow> Options \<Rightarrow> string \<Rightarrow> string \<Rightarrow> bool \<Rightarrow> Version list \<Rightarrow> Version list
     \<Rightarrow> (string \<times> string) list \<Rightarrow> BuildData io" where
  "uploadBundle w options bundleUri sourceMapUri routeCollision buildAssets buildFunctions
       buildDependencies =
     io_bind (call (AssetUpload (app_name w) bundleUri (app_bundlePath w) (\<not> isPublic options))
                (upload w (app_name w) bundleUri (app_bundlePath w) (\<not> isPublic options)))
       (\<lambda>bundleVersion.
     io_bind (call (AssetUpload (app_name w) sourceMapUri (app_sourceMapPath w) (\<not> isPublic options))
                (upload w (app_name w) sourceMapUri (app_sourceMapPath w) (\<not> isPublic options)))
       (\<lambda>sourceMapVersion.
     let existingAssets =
           (if routeCollision \<and> overwrite options
            then filter (\<lambda>v. path v \<noteq> bundleUri \<and> path v \<noteq> sourceMapUri) buildAssets
            else buildAssets);
         data0 = \<lparr> FunctionVersions = map sid buildFunctions,
                   AssetVersions = map sid existingAssets,
                   Dependencies = buildDependencies \<rparr>;
         data1 = data0 \<lparr> AssetVersions := AssetVersions data0 @ [sid bundleVersion] \<rparr>;
         data2 = data1 \<lparr> AssetVersions := AssetVersions data1 @ [sid sourceMapVersion] \<rparr>
     in io_return data2))"

text \<open>
  The closure run under the label \<open>Deploying a new build of your Twilio Runtime\<close>.
\<close>

definition deployBuild ::
  "world \<Rightarrow> DeploymentClient \<Rightarrow> BuildData \<Rightarrow> jstring \<Rightarrow> Deployment io" where
  "deployBuild w deploymentClient buildData version =
     io_bind (call (BuildCreate buildData) (build_create w buildData)) (\<lambda>newBuild.
     io_bind (DeploymentClient_create w deploymentClient (build_sid newBuild)) (\<lambda>deployment.
     io_bind (perform (UpdateAppVersion version)) (\<lambda>_.
     io_return deployment)))"

text \<open>
  \<open>_doDeploy\<close> of deploy.ts. \<open>version\<close> is its parameter \<open>nextVersion\<close>. The part after
  the runtime has been fetched and found to have an environment is \<open>deployTo\<close>.
\<close>

definition deployTo ::
  "world \<Rightarrow> jstring \<Rightarrow> Options \<Rightarrow> string \<Rightarrow> Credential \<Rightarrow> Runtime \<Rightarrow> Environment
     \<Rightarrow> DeployResult io" where
  "deployTo w version options pluginBaseUrl credentials runtime env =
     (let bundleUri = pluginBaseUrl @ ''/bundle.js'';
          sourceMapUri = pluginBaseUrl @ ''/bundle.js.map'';
          pluginUrl' = ''https://'' @ domain_name env @ bundleUri
      in
      io_bind (attempt (new_ConfigurationClient w credentials)) (\<lambda>_.
      io_bind (attempt (new_BuildClient w credentials (service_sid (service runtime)))) (\<lambda>_.
      io_bind (attempt (new_AssetClient w credentials (service_sid (service runtime)))) (\<lambda>_.
      io_bind (new_DeploymentClient w credentials (service_sid (service runtime))
                 (environment_sid env)) (\<lambda>deploymentClient.
      let allowReact = (UNBUNDLED_REACT w = Some ''true'') in
      io_bind (call GetFlexUIVersion (getFlexUIVersion w)) (\<lambda>uiVersion.
      io_bind (call GetUIDependencies (getUIDependencies w)) (\<lambda>uiDependencies.
      io_bind (verifyFlexUIConfiguration w uiVersion uiDependencies allowReact) (\<lambda>_.
      io_bind (progress ''Validating the new plugin bundle''
                 (validateBundle options runtime pluginBaseUrl pluginUrl')) (\<lambda>routeCollision.
      let buildAssets = (case build runtime of Some b \<Rightarrow> asset_versions b | None \<Rightarrow> []);
          buildFunctions = (case build runtime of Some b \<Rightarrow> function_versions b | None \<Rightarrow> []);
          buildDependencies = (case build runtime of Some b \<Rightarrow> dependencies b | None \<Rightarrow> [])
      in
      io_bind (progress ''Uploading your plugin bundle''
                 (uploadBundle w options bundleUri sourceMapUri routeCollision buildAssets
                    buildFunctions buildDependencies)) (\<lambda>buildData.
      io_bind (progress ''Registering plugin with Flex''
                 (call (RegisterSid (service_sid (service runtime)))
                    (registerSid w (service_sid (service runtime))))) (\<lambda>_.
      io_bind (progress ''Deploying a new build of your Twilio Runtime''
                 (deployBuild w deploymentClient buildData version)) (\<lambda>_.
      io_bind (getAccount w runtime credentials) (\<lambda>account.
      io_bind (perform (DeploySuccessful pluginUrl' (isPublic options) (acct_sid account))) (\<lambda>_.
      io_return \<lparr> serviceSid = service_sid (service runtime),
                  accountSid = account_sid (service runtime),
                  environmentSid = environment_sid env,
                  domainName = domain_name env,
                  result_isPublic = isPublic options,
                  nextVersion = version,
                  pluginUrl = pluginUrl' \<rparr>))))))))))))))"

definition doDeploy :: "world \<Rightarrow> jstring \<Rightarrow> Options \<Rightarrow> DeployResult io" where
  "doDeploy w version options =
     (if \<not> checkFilesExist w (app_bundlePath w) then
        io_throw (FlexPluginError (Text
          ''Could not find build file. Did you run `twilio flex:plugins:build` first?''))
      else
        let pluginBaseUrl =
              js_replace (assetBaseUrlTemplate w) ''%PLUGIN_VERSION%'' (js_string version)
        in
        io_bind (call GetCredential (getCredential w)) (\<lambda>credentials.
        io_bind
          (if isPluginsPilot options then
             io_bind (attempt (new_PluginsApiClient w credentials)) (\<lambda>_.
             io_bind (call HasFlag (Inr (hasFlag w credentials))) (\<lambda>flag.
             if \<not> flag then
               io_throw (FlexPluginError (Text
                 (''This command is currently in Preview and is restricted to users while we work on improving it. ''
                  @ ''If you would like to participate, please contact flex@twilio.com to learn more.'')))
             else perform PluginsApiWarning))
           else io_return ()) (\<lambda>_.
        io_bind (perform (LoggerInfo (Text
                   (''Uploading your Flex plugin to Twilio Assets'' @ [CHR 0x0A])))) (\<lambda>_.
        io_bind (call GetRuntime (getRuntime w credentials)) (\<lambda>runtime.
        case environment runtime of
          None \<Rightarrow> io_throw (FlexPluginError (Text ''No Runtime environment was found''))
        | Some env \<Rightarrow> deployTo w version options pluginBaseUrl credentials runtime env)))))"

section \<open>The entry point\<close>

definition allowedBumps :: "string list" where
  "allowedBumps = [''major'', ''minor'', ''patch'', ''version'']"

text \<open>
  \<open>deploy\<close> of deploy.ts. The two variables it assigns, \<open>nextVersion\<close> and \<open>opts\<close>, are
  the pair that the branches give; a \<open>throw\<close> is the left injection. \<open>disallow\<close> is its
  constant \<open>disallowVersioning\<close>, and \<open>version0\<close> the first value of \<open>nextVersion\<close>.
\<close>

definition deploy :: "world \<Rightarrow> string list \<Rightarrow> DeployResult io" where
  "deploy w argv =
     io_bind (perform (SetEnvironment argv)) (\<lambda>_.
     io_bind (perform (LoggerDebug ''Deploying Flex plugin'')) (\<lambda>_.
     let disallow = (''--disallow-versioning'' \<in> set argv);
         version0 = argv_at argv 1;
         bump = argv_at argv 0;
         opts = \<lparr> isPublic = (''--public'' \<in> set argv),
                  overwrite = (''--overwrite'' \<in> set argv \<or> disallow),
                  disallowVersioning = disallow,
                  isPluginsPilot = (''--pilot-plugins-api'' \<in> set argv) \<rparr>
     in
     io_bind
       (if disallow then io_return (JString ''0.0.0'', opts)
        else if \<not> js_includes allowedBumps bump then
          io_throw (FlexPluginError (Text
            (''Version bump can only be one of '' @ join '', '' allowedBumps)))
        else if bump = JString ''version'' \<and> \<not> truthy (argv_at argv 1) then
          io_throw (FlexPluginError (Text ''Custom version bump requires the version value.''))
        else if bump = JString ''overwrite'' then
          io_return (JString (app_version w), opts \<lparr> overwrite := True \<rparr>)
        else if bump \<noteq> JString ''version'' then
          io_return
            (case inc w (app_version w) (js_string bump) of
               None \<Rightarrow> JNull
             | Some v \<Rightarrow> JString v, opts)
        else io_return (version0, opts))
       (\<lambda>(version, opts'). doDeploy w version opts')))"

section \<open>A fragment of the semver library\<close>

text \<open>
  The orchestrator takes the semver library as a collaborator (the fields \<open>coerce\<close>,
  \<open>satisfies\<close> and \<open>inc\<close> of the world). For the versions that the specification names,
  this is the library on plain versions \<open>MAJOR.MINOR.PATCH\<close>: a numeric identifier is a
  digit sequence without a leading zero, a range is one comparator (\<open>>=\<close>, \<open><=\<close>, \<open>>\<close>,
  \<open><\<close>, \<open>=\<close>, \<open>^\<close>, \<open>~\<close> or none, which is equality) before a plain version, and
  \<open>coerce\<close> reads the first digit sequence of the string and up to two more, each after
  a dot. Prerelease tags, build metadata, partial versions in ranges and compound ranges
  are outside the fragment.
\<close>

definition is_digit :: "char \<Rightarrow> bool" where
  "is_digit c = (c \<in> set ''0123456789'')"

definition digit_value :: "char \<Rightarrow> nat" where
  "digit_value c = length (takeWhile (\<lambda>d. d \<noteq> c) ''0123456789'')"

definition number :: "string \<Rightarrow> nat" where
  "number ds = foldl (\<lambda>n c. 10 * n + digit_value c) 0 ds"

definition numeric_identifier :: "string \<Rightarrow> nat option" where
  "numeric_identifier ds =
     (if ds \<noteq> [] \<and> list_all is_digit ds \<and> (length ds = 1 \<or> hd ds \<noteq> CHR ''0'')
      then Some (number ds) else None)"

fun split_dots :: "string \<Rightarrow> string list" where
  "split_dots [] = [[]]"
| "split_dots (c # cs) =
     (if c = CHR ''.'' then [] # split_dots cs
      else (case split_dots cs of
              [] \<Rightarrow> [[c]]
            | part # parts \<Rightarrow> (c # part) # parts))"

definition semver_parse :: "string \<Rightarrow> SemVer option" where
  "semver_parse s =
     (case split_dots s of
        [a, b, c] \<Rightarrow>
          (case (numeric_identifier a, numeric_identifier b, numeric_identifier c) of
             (Some x, Some y, Some z) \<Rightarrow> Some (SemVer x y z)
           | _ \<Rightarrow> None)
      | _ \<Rightarrow> None)"

fun semver_less :: "SemVer \<Rightarrow> SemVer \<Rightarrow> bool" where
  "semver_less (SemVer a b c) (SemVer x y z) =
     (a < x \<or> (a = x \<and> (b < y \<or> (b = y \<and> c < z))))"

fun caret_bound :: "SemVer \<Rightarrow> SemVer" where
  "caret_bound (SemVer a b c) =
     (if 0 < a then SemVer (a + 1) 0 0
      else if 0 < b then SemVer 0 (b + 1) 0
      else SemVer 0 0 (c + 1))"

fun tilde_bound :: "SemVer \<Rightarrow> SemVer" where
  "tilde_bound (SemVer a b c) = SemVer a (b + 1) 0"

definition test_comparator :: "string \<Rightarrow> SemVer \<Rightarrow> SemVer \<Rightarrow> bool" where
  "test_comparator operator v bound =
     (if operator = ''>='' then \<not> semver_less v bound
      else if operator = ''<='' then \<not> semver_less bound v
      else if operator = ''>'' then semver_less bound v
      else if operator = ''<'' then semver_less v bound
      else if operator = ''^'' then \<not> semver_less v bound \<and> semver_less v (caret_bound bound)
      else if operator = ''~'' then \<not> semver_less v bound \<and> semver_less v (tilde_bound bound)
      else v = bound)"

definition split_operator :: "string \<Rightarrow> string \<times> string" where
  "split_operator rng =
     (if take 2 rng = ''>='' \<or> take 2 rng = ''<='' then (take 2 rng, drop 2 rng)
      else if take 1 rng \<in> set [''>'', ''<'', ''='', ''^'', ''~''] then (take 1 rng, drop 1 rng)
      else ([], rng))"

definition semver_satisfies :: "version_arg \<Rightarrow> string \<Rightarrow> bool" where
  "semver_satisfies version rng =
     (case (case version of VString s \<Rightarrow> semver_parse s | VSemVer v \<Rightarrow> Some v) of
        None \<Rightarrow> False
      | Some v \<Rightarrow>
          (case semver_parse (snd (split_operator rng)) of
             None \<Rightarrow> False
           | Some bound \<Rightarrow> test_comparator (fst (split_operator rng)) v bound))"

definition coerce_part :: "string \<Rightarrow> string \<times> string" where
  "coerce_part rest =
     (case rest of
        c # cs \<Rightarrow>
          (if c = CHR ''.'' \<and> takeWhile is_digit cs \<noteq> []
           then (takeWhile is_digit cs, dropWhile is_digit cs)
           else ([], rest))
      | [] \<Rightarrow> ([], rest))"

definition semver_coerce :: "string \<Rightarrow> SemVer option" where
  "semver_coerce s =
     (let start = dropWhile (\<lambda>c. \<not> is_digit c) s;
          major = takeWhile is_digit start;
          (minor, rest) = coerce_part (dropWhile is_digit start);
          (patch, rest') = coerce_part rest
      in if major = [] then None
         else (case (numeric_identifier major,
                     numeric_identifier (if minor = [] then ''0'' else minor),
                     numeric_identifier (if patch = [] then ''0'' else patch)) of
                 (Some x, Some y, Some z) \<Rightarrow> Some (SemVer x y z)
               | _ \<Rightarrow> None))"

function string_of_nat :: "nat \<Rightarrow> string" where
  "string_of_nat n =
     (if n < 10 then [''0123456789'' ! n]
      else string_of_nat (n div 10) @ [''0123456789'' ! (n mod 10)])"
  by pat_completeness auto
termination
  by (relation "measure id") auto

fun semver_format :: "SemVer \<Rightarrow> string" where
  "semver_format (SemVer a b c) =
     string_of_nat a @ ''.'' @ string_of_nat b @ ''.'' @ string_of_nat c"

definition semver_inc :: "string \<Rightarrow> string \<Rightarrow> string option" where
  "semver_inc version release =
     (case semver_parse version of
        None \<Rightarrow> None
      | Some (SemVer a b c) \<Rightarrow>
          (if release = ''major'' then Some (semver_format (SemVer (a + 1) 0 0))
           else if release = ''minor'' then Some (semver_format (SemVer a (b + 1) 0))
           else if release = ''patch'' then Some (semver_format (SemVer a b (c + 1)))
           else None))"

section \<open>An example world\<close>

text \<open>
  The helper \<open>isSidOfType\<close> as Twilio's sids are: the two letters of the type and then
  32 hexadecimal digits.
\<close>

definition sid_of_type :: "string \<Rightarrow> string \<Rightarrow> bool" where
  "sid_of_type s t =
     (length t = 2 \<and> take 2 s = t \<and> length s = 34
      \<and> list_all (\<lambda>c. c \<in> set ''0123456789abcdef'') (drop 2 s))"

text \<open>
  A project \<open>plugin-test\<close> at version 1.2.3 with React 16.13.1 installed, an account on
  Flex UI 1.20.0 whose project declares React 16.5.2, and a service with an environment
  and no build yet. Every collaborator answers.
\<close>

definition example_runtime :: Runtime where
  "example_runtime =
     \<lparr> service = \<lparr> service_sid = ''ZS00000000000000000000000000000001'',
                   account_sid = ''AC00000000000000000000000000000002'' \<rparr>,
       environment = Some \<lparr> environment_sid = ''ZE00000000000000000000000000000003'',
                            domain_name = ''default-1234.twil.io'' \<rparr>,
       build = None \<rparr>"

definition example_world :: world where
  "example_world =
     \<lparr> coerce = semver_coerce,
       satisfies = semver_satisfies,
       inc = semver_inc,
       app_name = ''plugin-test'',
       app_version = ''1.2.3'',
       app_bundlePath = ''build/plugin-test.js'',
       app_sourceMapPath = ''build/plugin-test.js.map'',
       assetBaseUrlTemplate = ''/plugins/plugin-test/%PLUGIN_VERSION%'',
       checkFilesExist = (\<lambda>_. True),
       getPackageVersion = (\<lambda>name. if name = ''react'' \<or> name = ''react-dom''
                                     then ''16.13.1'' else ''0.0.0''),
       UNBUNDLED_REACT = None,
       user_reply = ReplyDefault,
       isSidOfType = sid_of_type,
       ServiceClient_getBaseUrl = ''https://serverless.twilio.com/v1'',
       getCredential = Inr \<lparr> username = ''AC00000000000000000000000000000002'',
                             password = ''abc'' \<rparr>,
       hasFlag = (\<lambda>_. True),
       getRuntime = (\<lambda>_. Inr example_runtime),
       new_ConfigurationClient = (\<lambda>_. Inr ()),
       new_BuildClient = (\<lambda>_ _. Inr ()),
       new_AssetClient = (\<lambda>_ _. Inr ()),
       new_AccountsClient = (\<lambda>_. Inr ()),
       new_PluginsApiClient = (\<lambda>_. Inr ()),
       getFlexUIVersion = Inr ''1.20.0'',
       getUIDependencies = Inr \<lparr> react = JString ''16.5.2'', react_dom = JString ''16.5.2'' \<rparr>,
       upload = (\<lambda>name uri file private.
                   Inr \<lparr> path = uri,
                         sid = (if file = ''build/plugin-test.js''
                                then ''ZN00000000000000000000000000000004''
                                else ''ZN00000000000000000000000000000005'') \<rparr>),
       registerSid = (\<lambda>_. Inr ()),
       build_create = (\<lambda>data. Inr \<lparr> build_sid = ''ZB00000000000000000000000000000006'',
                                     asset_versions = [], function_versions = [],
                                     dependencies = Dependencies data \<rparr>),
       http_post = (\<lambda>_ _ _. Inr \<lparr> deployment_sid = ''ZD00000000000000000000000000000007'' \<rparr>),
       account_get = (\<lambda>a. Inr \<lparr> acct_sid = a \<rparr>) \<rparr>"

text \<open>
  A service whose build already serves version 1.2.3 of the plugin, next to another
  plugin, a function and a dependency.
\<close>

definition example_build :: Build where
  "example_build =
     \<lparr> build_sid = ''ZB00000000000000000000000000000010'',
       asset_versions =
         [\<lparr> path = ''/plugins/plugin-test/1.2.3/bundle.js'',
            sid = ''ZN00000000000000000000000000000011'' \<rparr>,
          \<lparr> path = ''/plugins/plugin-test/1.2.3/bundle.js.map'',
            sid = ''ZN00000000000000000000000000000012'' \<rparr>,
          \<lparr> path = ''/plugins/plugin-other/0.1.0/bundle.js'',
            sid = ''ZN00000000000000000000000000000013'' \<rparr>],
       function_versions =
         [\<lparr> path = ''/hello'', sid = ''ZN00000000000000000000000000000014'' \<rparr>],
       dependencies = [(''lodash'', ''4.17.21'')] \<rparr>"

definition collision_world :: world where
  "collision_world =
     example_world \<lparr> getRuntime := (\<lambda>_. Inr (example_runtime \<lparr> build := Some example_build \<rparr>)) \<rparr>"

definition example_options :: Options where
  "example_options =
     \<lparr> isPublic = False, overwrite = False, disallowVersioning = False, isPluginsPilot = False \<rparr>"

section \<open>Notions of the claims\<close>

text \<open>The two errors with which \<open>deploy\<close> refuses a bump directive.\<close>

definition bump_error :: "error \<Rightarrow> bool" where
  "bump_error e =
     (e = FlexPluginError (Text (''Version bump can only be one of '' @ join '', '' allowedBumps))
      \<or> e = FlexPluginError (Text ''Custom version bump requires the version value.''))"

text \<open>An event that is a call of \<open>AssetClient.upload\<close>.\<close>

fun is_upload :: "event \<Rightarrow> bool" where
  "is_upload (AssetUpload name uri file private) = True"
| "is_upload ev = False"

text \<open>
  The asset versions of the existing build that a new build carries forward, for the
  base URL of the new plugin version: all of them, except that when the collision check
  found a collision and the overwrite option is set, those at the two paths of the new
  bundle and its source map are left out. No build is no asset version.
\<close>

definition carried_assets :: "Build option \<Rightarrow> string \<Rightarrow> bool \<Rightarrow> Version list" where
  "carried_assets existing base overwriting =
     (case existing of
        None \<Rightarrow> []
      | Some b \<Rightarrow>
          (if \<not> verifyPath base b \<and> overwriting
           then filter (\<lambda>v. path v \<noteq> base @ ''/bundle.js'' \<and> path v \<noteq> base @ ''/bundle.js.map'')
                  (asset_versions b)
           else asset_versions b))"

section \<open>Properties\<close>

subsection \<open>Sequencing\<close>

lemma io_bind_return [simp]: "io_bind (io_return x) f = f x"
  by (simp add: io_bind_def io_return_def)

lemma io_bind_throw [simp]: "io_bind (io_throw e) f = io_throw e"
  by (simp add: io_bind_def io_throw_def)

lemma io_bind_Inl [simp]: "io_bind (t, Inl e) f = (t, Inl e)"
  by (simp add: io_bind_def)

lemma io_bind_Inr [simp]: "io_bind (t, Inr x) f = (t @ fst (f x), snd (f x))"
  by (simp add: io_bind_def)

lemma io_bind_perform: "io_bind (perform ev) f = (ev # fst (f ()), snd (f ()))"
  by (simp add: io_bind_def perform_def)

lemma io_bind_call_Inr: "io_bind (call ev (Inr x)) f = (ev # fst (f x), snd (f x))"
  by (simp add: io_bind_def call_def)

lemma io_bind_call_Inl: "io_bind (call ev (Inl r)) f = ([ev], Inl (Rejected r))"
  by (simp add: io_bind_def call_def)

lemma io_bind_attempt_Inr [simp]: "io_bind (attempt (Inr x)) f = f x"
  by (simp add: io_bind_def attempt_def)

lemma io_bind_attempt_Inl [simp]: "io_bind (attempt (Inl r)) f = ([], Inl (Rejected r))"
  by (simp add: io_bind_def attempt_def)

lemma snd_io_bind:
  "snd (io_bind m f) = (case snd m of Inl e \<Rightarrow> Inl e | Inr x \<Rightarrow> snd (f x))"
  by (simp add: io_bind_def split: sum.splits)

lemma fst_io_bind:
  "fst (io_bind m f) = (case snd m of Inl e \<Rightarrow> fst m | Inr x \<Rightarrow> fst m @ fst (f x))"
  by (simp add: io_bind_def split: sum.splits)

subsection \<open>Errors and events of the stages\<close>

lemma io_simps [simp]:
  "snd (io_return x) = Inr x" "snd (io_throw e) = Inl e" "snd (perform ev) = Inr ()"
  "fst (io_return x) = []" "fst (io_throw e) = []" "fst (perform ev) = [ev]"
  "fst (call ev a) = [ev]" "fst (attempt a) = []"
  by (simp_all add: io_return_def io_throw_def perform_def call_def attempt_def)

lemma io_bind_InlE:
  assumes "snd (io_bind m f) = Inl e"
  obtains "snd m = Inl e" | x where "snd m = Inr x" "snd (f x) = Inl e"
  using assms by (auto simp: snd_io_bind split: sum.splits)

lemma set_fst_io_bind:
  "ev \<in> set (fst (io_bind m f)) \<longleftrightarrow>
     ev \<in> set (fst m) \<or> (\<exists>x. snd m = Inr x \<and> ev \<in> set (fst (f x)))"
  by (auto simp: fst_io_bind split: sum.splits)

lemma snd_call_Inl: "snd (call ev a) = Inl e \<Longrightarrow> \<exists>r. e = Rejected r"
  by (auto simp: call_def split: sum.splits)

lemma snd_attempt_Inl: "snd (attempt a) = Inl e \<Longrightarrow> \<exists>r. e = Rejected r"
  by (auto simp: attempt_def split: sum.splits)

lemma snd_call_Inr_iff: "snd (call ev a) = Inr x \<longleftrightarrow> a = Inr x"
  by (cases a) (simp_all add: call_def)

lemma snd_attempt_Inr_iff: "snd (attempt a) = Inr x \<longleftrightarrow> a = Inr x"
  by (cases a) (simp_all add: attempt_def)

lemma bump_error_simps [simp]:
  "\<not> bump_error (Rejected r)"
  "\<not> bump_error (JsError s)"
  "\<not> bump_error (UserActionError m)"
  "\<not> bump_error (FlexPluginError (SingleLineString ls))"
  "bump_error (FlexPluginError (Text t)) \<longleftrightarrow>
     t = ''Version bump can only be one of major, minor, patch, version''
     \<or> t = ''Custom version bump requires the version value.''"
  by (auto simp: bump_error_def allowedBumps_def)

lemma verifyFlexUIConfiguration_no_bump_error:
  "snd (verifyFlexUIConfiguration w flexUI deps allowReact) = Inl e \<Longrightarrow> \<not> bump_error e"
  unfolding verifyFlexUIConfiguration_def Let_def
  by (auto elim!: io_bind_InlE dest!: snd_call_Inl snd_attempt_Inl split: if_splits)

lemma validateBundle_no_bump_error:
  "snd (validateBundle options runtime base url) = Inl e \<Longrightarrow> \<not> bump_error e"
  unfolding validateBundle_def Let_def
  by (auto elim!: io_bind_InlE split: if_splits)

lemma uploadBundle_no_bump_error:
  "snd (uploadBundle w options bu su rc ba bf bd) = Inl e \<Longrightarrow> \<not> bump_error e"
  unfolding uploadBundle_def Let_def
  by (auto elim!: io_bind_InlE dest!: snd_call_Inl)

lemma DeploymentClient_create_no_bump_error:
  "snd (DeploymentClient_create w c b) = Inl e \<Longrightarrow> \<not> bump_error e"
  unfolding DeploymentClient_create_def
  by (auto dest!: snd_call_Inl split: if_splits)

lemma new_DeploymentClient_no_bump_error:
  "snd (new_DeploymentClient w a s v) = Inl e \<Longrightarrow> \<not> bump_error e"
  unfolding new_DeploymentClient_def Let_def
  by (auto split: if_splits)

lemma deployBuild_no_bump_error:
  "snd (deployBuild w c d v) = Inl e \<Longrightarrow> \<not> bump_error e"
  unfolding deployBuild_def
  by (auto elim!: io_bind_InlE dest!: snd_call_Inl DeploymentClient_create_no_bump_error)

lemma getAccount_no_bump_error:
  "snd (getAccount w r c) = Inl e \<Longrightarrow> \<not> bump_error e"
  unfolding getAccount_def
  by (auto elim!: io_bind_InlE dest!: snd_call_Inl snd_attempt_Inl split: if_splits)

lemma deployTo_no_bump_error:
  "snd (deployTo w v options base cred runtime env) = Inl e \<Longrightarrow> \<not> bump_error e"
  unfolding deployTo_def Let_def progress_def
  by (elim io_bind_InlE)
     (auto dest!: snd_call_Inl snd_attempt_Inl
        dest: getAccount_no_bump_error deployBuild_no_bump_error uploadBundle_no_bump_error
          validateBundle_no_bump_error verifyFlexUIConfiguration_no_bump_error
          new_DeploymentClient_no_bump_error)

lemma doDeploy_no_bump_error:
  "snd (doDeploy w v options) = Inl e \<Longrightarrow> \<not> bump_error e"
  unfolding doDeploy_def Let_def
  by (auto elim!: io_bind_InlE dest!: snd_call_Inl snd_attempt_Inl
        dest: deployTo_no_bump_error split: if_splits option.splits)

lemma verifyFlexUIConfiguration_events:
  "ev \<in> set (fst (verifyFlexUIConfiguration w flexUI deps allowReact)) \<Longrightarrow>
   ev = LoggerNewline \<or> (\<exists>m. ev = LoggerWarning m) \<or> (\<exists>m. ev = LoggerInfo m)
   \<or> ev = Confirm ''Do you still want to continue deploying?'' ''N''"
  unfolding verifyFlexUIConfiguration_def Let_def
  by (auto simp: set_fst_io_bind split: if_splits)

lemma validateBundle_events:
  "ev \<in> set (fst (validateBundle options runtime base url)) \<Longrightarrow>
   ev = LoggerNewline \<or> (\<exists>m. ev = LoggerWarning m)"
  unfolding validateBundle_def Let_def
  by (auto simp: set_fst_io_bind split: if_splits)

lemma uploadBundle_events:
  "ev \<in> set (fst (uploadBundle w options bu su rc ba bf bd)) \<Longrightarrow> is_upload ev"
  unfolding uploadBundle_def Let_def
  by (auto simp: set_fst_io_bind)

lemma getAccount_events:
  "ev \<in> set (fst (getAccount w runtime cred)) \<Longrightarrow> \<exists>a. ev = AccountGet a"
  unfolding getAccount_def
  by (auto simp: set_fst_io_bind split: if_splits)

lemma deployBuild_BuildCreate:
  "BuildCreate data \<in> set (fst (deployBuild w c d v)) \<Longrightarrow> data = d"
  unfolding deployBuild_def DeploymentClient_create_def
  by (auto simp: set_fst_io_bind split: if_splits)

lemma validateBundle_result:
  "snd (validateBundle options runtime base url) = Inr rc \<Longrightarrow>
   rc = (case build runtime of Some b \<Rightarrow> \<not> verifyPath base b | None \<Rightarrow> False)"
  unfolding validateBundle_def Let_def
  by (auto simp: snd_io_bind split: sum.splits)

lemma validateBundle_collision:
  "build runtime = Some b \<Longrightarrow> \<not> verifyPath base b \<Longrightarrow> \<not> overwrite options \<Longrightarrow>
   validateBundle options runtime base url =
     ([], Inl (FlexPluginError (Text (''You already have a plugin with the same version: '' @ url))))"
  by (simp add: validateBundle_def io_throw_def)

lemma uploadBundle_result:
  "snd (uploadBundle w options bu su rc ba bf bd) = Inr data \<Longrightarrow>
   \<exists>bundleVersion sourceMapVersion.
     upload w (app_name w) bu (app_bundlePath w) (\<not> isPublic options) = Inr bundleVersion
     \<and> upload w (app_name w) su (app_sourceMapPath w) (\<not> isPublic options) = Inr sourceMapVersion
     \<and> data = \<lparr> FunctionVersions = map sid bf,
                 AssetVersions =
                   map sid (if rc \<and> overwrite options
                            then filter (\<lambda>v. path v \<noteq> bu \<and> path v \<noteq> su) ba else ba)
                   @ [sid bundleVersion, sid sourceMapVersion],
                 Dependencies = bd \<rparr>"
  unfolding uploadBundle_def Let_def
  by (auto simp: snd_io_bind snd_call_Inr_iff split: sum.splits)

subsection \<open>The path collision detector\<close>

lemma list_all_checkPathIsUnused:
  "list_all (checkPathIsUnused p q) vs \<longleftrightarrow> p \<notin> path ` set vs \<and> q \<notin> path ` set vs"
  by (induction vs) (auto simp: checkPathIsUnused_def)

lemma verifyPath_build_paths:
  "verifyPath baseUrl b \<longleftrightarrow>
     baseUrl @ ''/bundle.js'' \<notin> build_paths b \<and> baseUrl @ ''/bundle.js.map'' \<notin> build_paths b"
  by (auto simp: verifyPath_def build_paths_def list_all_checkPathIsUnused)

text \<open>
  Claim C2. For every base URL and every build, \<open>_verifyPath\<close> is true exactly when
  neither \<open>{baseUrl}/bundle.js\<close> nor \<open>{baseUrl}/bundle.js.map\<close> is the path of an
  asset version or a function version of the build. The function is a pure HOL function
  of its two arguments: it performs no call and returns no changed build.
\<close>

theorem verifyPath_iff:
  "verifyPath baseUrl b \<longleftrightarrow>
     baseUrl @ ''/bundle.js'' \<notin> build_paths b \<and> baseUrl @ ''/bundle.js.map'' \<notin> build_paths b"
  by (rule verifyPath_build_paths)

subsection \<open>The entry point\<close>

text \<open>
  Claim C1, on the code. The claim says that the bump directive \<open>overwrite\<close> is accepted,
  resolves to the current version and forces the overwrite option. The code refuses it:
  \<open>allowedBumps\<close> does not list \<open>overwrite\<close>, so for every argument vector that starts
  with \<open>overwrite\<close> and does not disallow versioning, \<open>deploy\<close> throws the error for an
  unknown bump directive before \<open>_doDeploy\<close> is called, whether or not the flag
  \<open>--overwrite\<close> is given. The branch of \<open>deploy\<close> for \<open>overwrite\<close> is never reached.
\<close>

theorem deploy_overwrite_rejected:
  "argv \<noteq> [] \<Longrightarrow> hd argv = ''overwrite'' \<Longrightarrow> ''--disallow-versioning'' \<notin> set argv \<Longrightarrow>
   deploy w argv =
     ([SetEnvironment argv, LoggerDebug ''Deploying Flex plugin''],
      Inl (FlexPluginError (Text ''Version bump can only be one of major, minor, patch, version'')))"
  by (cases argv)
     (simp_all add: deploy_def io_bind_perform argv_at_def js_includes_def allowedBumps_def
        io_throw_def)

theorem deploy_overwrite_rejected_witness:
  "deploy example_world [''overwrite'', ''--overwrite''] =
     ([SetEnvironment [''overwrite'', ''--overwrite''], LoggerDebug ''Deploying Flex plugin''],
      Inl (FlexPluginError (Text ''Version bump can only be one of major, minor, patch, version'')))"
  using deploy_overwrite_rejected [of "[''overwrite'', ''--overwrite'']" example_world]
  by simp

text \<open>
  Claim C5. For every argument vector that contains \<open>--disallow-versioning\<close>, whatever
  its bump directive is and also when it has none, \<open>deploy\<close> is the run of \<open>_doDeploy\<close> on
  the version \<open>0.0.0\<close> with the overwrite option true, after its two log lines; and no
  error of such a run is one of the two errors that refuse a bump directive.
\<close>

theorem deploy_disallow_versioning:
  "''--disallow-versioning'' \<in> set argv \<Longrightarrow>
   deploy w argv =
     io_bind (perform (SetEnvironment argv)) (\<lambda>_.
     io_bind (perform (LoggerDebug ''Deploying Flex plugin'')) (\<lambda>_.
     doDeploy w (JString ''0.0.0'')
       \<lparr> isPublic = (''--public'' \<in> set argv), overwrite = True, disallowVersioning = True,
         isPluginsPilot = (''--pilot-plugins-api'' \<in> set argv) \<rparr>))
   \<and> (\<forall>e. snd (deploy w argv) = Inl e \<longrightarrow> \<not> bump_error e)"
proof -
  assume d: "''--disallow-versioning'' \<in> set argv"
  then have eq: "deploy w argv =
     io_bind (perform (SetEnvironment argv)) (\<lambda>_.
     io_bind (perform (LoggerDebug ''Deploying Flex plugin'')) (\<lambda>_.
     doDeploy w (JString ''0.0.0'')
       \<lparr> isPublic = (''--public'' \<in> set argv), overwrite = True, disallowVersioning = True,
         isPluginsPilot = (''--pilot-plugins-api'' \<in> set argv) \<rparr>))"
    by (simp add: deploy_def)
  have "\<not> bump_error e" if "snd (deploy w argv) = Inl e" for e
    using that unfolding eq
    by (auto elim!: io_bind_InlE dest: doDeploy_no_bump_error)
  with eq show ?thesis by blast
qed

theorem deploy_disallow_versioning_witness:
  "snd (deploy example_world [''overwrite'', ''--disallow-versioning'']) =
     Inr \<lparr> serviceSid = ''ZS00000000000000000000000000000001'',
           accountSid = ''AC00000000000000000000000000000002'',
           environmentSid = ''ZE00000000000000000000000000000003'',
           domainName = ''default-1234.twil.io'',
           result_isPublic = False,
           nextVersion = JString ''0.0.0'',
           pluginUrl = ''https://default-1234.twil.io/plugins/plugin-test/0.0.0/bundle.js'' \<rparr>"
proof -
  have run: "snd (doDeploy example_world (JString ''0.0.0'')
       \<lparr> isPublic = False, overwrite = True, disallowVersioning = True,
         isPluginsPilot = False \<rparr>) =
     Inr \<lparr> serviceSid = ''ZS00000000000000000000000000000001'',
           accountSid = ''AC00000000000000000000000000000002'',
           environmentSid = ''ZE00000000000000000000000000000003'',
           domainName = ''default-1234.twil.io'',
           result_isPublic = False,
           nextVersion = JString ''0.0.0'',
           pluginUrl = ''https://default-1234.twil.io/plugins/plugin-test/0.0.0/bundle.js'' \<rparr>"
    by code_simp
  have "''--disallow-versioning'' \<in> set [''overwrite'', ''--disallow-versioning'']"
    by simp
  from deploy_disallow_versioning [OF this, of example_world] run
  show ?thesis
    by (simp add: snd_io_bind)
qed

subsection \<open>The compatibility validator\<close>

text \<open>
  Claim C6. For every Flex UI version and every dependency map, a call of
  \<open>_verifyFlexUIConfiguration\<close> with \<open>allowReact\<close> false returns without an error and
  with an empty trace: no prompt is issued, and nothing else is.
\<close>

theorem verifyFlexUIConfiguration_not_allowed:
  "verifyFlexUIConfiguration w flexUI deps False = ([], Inr ())"
  by (simp add: verifyFlexUIConfiguration_def io_return_def)

theorem verifyFlexUIConfiguration_not_allowed_witness:
  "verifyFlexUIConfiguration example_world ''1.18.0''
     \<lparr> react = JUndefined, react_dom = JString ''16.5.2'' \<rparr> False = ([], Inr ())"
  by (rule verifyFlexUIConfiguration_not_allowed)

lemma semver_1_18_0:
  "\<not> semver_satisfies (VString ''1.19.0'') ''1.18.0''"
  "semver_coerce ''1.18.0'' = Some (SemVer 1 18 0)"
  "\<not> semver_satisfies (VSemVer (SemVer 1 18 0)) ''>=1.19.0''"
  by code_simp+

lemma unsupported_general:
  "\<not> satisfies w (VString ''1.19.0'') flexUI \<Longrightarrow>
   (\<And>c. coerce w flexUI = Some c \<Longrightarrow> \<not> satisfies w (VSemVer c) ''>=1.19.0'') \<Longrightarrow>
   verifyFlexUIConfiguration w flexUI deps True =
     ([], Inl (FlexPluginError (SingleLineString
        [''We detected that your account is using Flex UI version '' @ flexUI
           @ '' which is incompatible'',
         ''with unbundled React. Please visit https://flex.twilio.com/admin/versioning and update to'',
         ''version 1.19 or above.''])))"
  by (simp add: verifyFlexUIConfiguration_def io_throw_def split: option.splits)

text \<open>
  Claim C7. With \<open>allowReact\<close> true, for every Flex UI version that is not supporting
  (the version \<open>1.19.0\<close> does not satisfy it as a range, and its coerced version, when it
  has one, does not satisfy \<open>>=1.19.0\<close>), \<open>_verifyFlexUIConfiguration\<close> throws the
  \<open>FlexPluginError\<close> whose text names the detected version, with an empty trace: no
  prompt. This holds for every semver library; with the semver library on plain
  versions, the Flex UI version \<open>1.18.0\<close> fails this way.
\<close>

theorem verifyFlexUIConfiguration_unsupported:
  "(\<not> satisfies w (VString ''1.19.0'') flexUI
      \<and> (\<forall>c. coerce w flexUI = Some c \<longrightarrow> \<not> satisfies w (VSemVer c) ''>=1.19.0'')
    \<longrightarrow> verifyFlexUIConfiguration w flexUI deps True =
          ([], Inl (FlexPluginError (SingleLineString
             [''We detected that your account is using Flex UI version '' @ flexUI
                @ '' which is incompatible'',
              ''with unbundled React. Please visit https://flex.twilio.com/admin/versioning and update to'',
              ''version 1.19 or above.'']))))
   \<and> verifyFlexUIConfiguration (w \<lparr> coerce := semver_coerce, satisfies := semver_satisfies \<rparr>)
        ''1.18.0'' deps True =
       ([], Inl (FlexPluginError (SingleLineString
          [''We detected that your account is using Flex UI version 1.18.0 which is incompatible'',
           ''with unbundled React. Please visit https://flex.twilio.com/admin/versioning and update to'',
           ''version 1.19 or above.''])))"
proof (intro conjI impI)
  assume "\<not> satisfies w (VString ''1.19.0'') flexUI
      \<and> (\<forall>c. coerce w flexUI = Some c \<longrightarrow> \<not> satisfies w (VSemVer c) ''>=1.19.0'')"
  then show "verifyFlexUIConfiguration w flexUI deps True =
          ([], Inl (FlexPluginError (SingleLineString
             [''We detected that your account is using Flex UI version '' @ flexUI
                @ '' which is incompatible'',
              ''with unbundled React. Please visit https://flex.twilio.com/admin/versioning and update to'',
              ''version 1.19 or above.''])))"
    by (intro unsupported_general) auto
next
  let ?w = "w \<lparr> coerce := semver_coerce, satisfies := semver_satisfies \<rparr>"
  have "verifyFlexUIConfiguration ?w ''1.18.0'' deps True =
     ([], Inl (FlexPluginError (SingleLineString
        [''We detected that your account is using Flex UI version '' @ ''1.18.0''
           @ '' which is incompatible'',
         ''with unbundled React. Please visit https://flex.twilio.com/admin/versioning and update to'',
         ''version 1.19 or above.''])))"
  proof (rule unsupported_general)
    show "\<not> satisfies ?w (VString ''1.19.0'') ''1.18.0''"
      by (simp add: semver_1_18_0)
  next
    fix c
    assume "coerce ?w ''1.18.0'' = Some c"
    then have "c = SemVer 1 18 0"
      by (simp add: semver_1_18_0)
    then show "\<not> satisfies ?w (VSemVer c) ''>=1.19.0''"
      using semver_1_18_0(3) by simp
  qed
  then show "verifyFlexUIConfiguration ?w ''1.18.0'' deps True =
       ([], Inl (FlexPluginError (SingleLineString
          [''We detected that your account is using Flex UI version 1.18.0 which is incompatible'',
           ''with unbundled React. Please visit https://flex.twilio.com/admin/versioning and update to'',
           ''version 1.19 or above.''])))"
    by simp
qed

theorem verifyFlexUIConfiguration_unsupported_witness:
  "verifyFlexUIConfiguration example_world ''1.17.2''
     \<lparr> react = JString ''16.5.2'', react_dom = JUndefined \<rparr> True =
     ([], Inl (FlexPluginError (SingleLineString
        [''We detected that your account is using Flex UI version 1.17.2 which is incompatible'',
         ''with unbundled React. Please visit https://flex.twilio.com/admin/versioning and update to'',
         ''version 1.19 or above.''])))"
proof -
  have a: "\<not> satisfies example_world (VString ''1.19.0'') ''1.17.2''"
    unfolding example_world_def by code_simp
  have c: "coerce example_world ''1.17.2'' = Some (SemVer 1 17 2)"
    unfolding example_world_def by code_simp
  have b: "\<not> satisfies example_world (VSemVer (SemVer 1 17 2)) ''>=1.19.0''"
    unfolding example_world_def by code_simp
  from a b c verifyFlexUIConfiguration_unsupported [of example_world "''1.17.2''"]
  show ?thesis by simp
qed

lemma example_world_mismatch:
  "coerce example_world ''1.20.0'' = Some (SemVer 1 20 0)"
  "satisfies example_world (VSemVer (SemVer 1 20 0)) ''>=1.19.0''"
  "getPackageVersion example_world ''react'' = ''16.13.1''"
  "getPackageVersion example_world ''react-dom'' = ''16.13.1''"
  "\<not> satisfies example_world (VString ''16.13.1'') ''16.5.2''"
  unfolding example_world_def by code_simp+

text \<open>
  Claim C8 as stated fails: it does not ask for \<open>allowReact\<close>. With \<open>allowReact\<close> false,
  on a supporting Flex UI version 1.20.0, with both React entries declared as 16.5.2 and
  React 16.13.1 installed, and a user who gives no answer, the validator returns without
  an error and without a prompt.
\<close>

theorem verifyFlexUIConfiguration_mismatch_counterexample:
  "coerce example_world ''1.20.0'' = Some (SemVer 1 20 0)
   \<and> satisfies example_world (VSemVer (SemVer 1 20 0)) ''>=1.19.0''
   \<and> getPackageVersion example_world ''react'' = ''16.13.1''
   \<and> \<not> satisfies example_world (VString ''16.13.1'') ''16.5.2''
   \<and> user_reply example_world = ReplyDefault
   \<and> verifyFlexUIConfiguration example_world ''1.20.0''
        \<lparr> react = JString ''16.5.2'', react_dom = JString ''16.5.2'' \<rparr> False = ([], Inr ())"
proof (intro conjI)
  show "user_reply example_world = ReplyDefault"
    by (simp add: example_world_def)
  show "verifyFlexUIConfiguration example_world ''1.20.0''
        \<lparr> react = JString ''16.5.2'', react_dom = JString ''16.5.2'' \<rparr> False = ([], Inr ())"
    by (simp add: verifyFlexUIConfiguration_def io_return_def)
qed (rule example_world_mismatch)+

text \<open>
  Claim C8, amended. For every run of \<open>_verifyFlexUIConfiguration\<close> with \<open>allowReact\<close>
  true, a supporting Flex UI version, declared \<open>react\<close> and \<open>react-dom\<close> entries, and a
  locally installed version of \<open>react\<close> or of \<open>react-dom\<close> that does not satisfy its
  declared range: the warning is logged and the prompt is issued with the default \<open>N\<close>;
  when the user answers yes the call returns without an error, and when the user answers
  no or gives no answer it throws the \<open>UserActionError\<close>.
\<close>

theorem verifyFlexUIConfiguration_mismatch:
  assumes "satisfies w (VString ''1.19.0'') flexUI
           \<or> (\<exists>c. coerce w flexUI = Some c \<and> satisfies w (VSemVer c) ''>=1.19.0'')"
    and "truthy (react deps)" and "truthy (react_dom deps)"
    and "\<not> satisfies w (VString (getPackageVersion w ''react'')) (js_string (react deps))
         \<or> \<not> satisfies w (VString (getPackageVersion w ''react-dom''))
               (js_string (react_dom deps))"
  shows "verifyFlexUIConfiguration w flexUI deps True =
     ([LoggerNewline,
       LoggerWarning (SingleLineString
         [''The React version '' @ getPackageVersion w ''react'' @ '' installed locally'',
          ''is incompatible with the React version '' @ js_string (react deps)
            @ '' installed on your Flex project.'']),
       LoggerInfo (SingleLineString
         [''Change your local React version or visit https://flex.twilio.com/admin/developers to'',
          ''change the React version installed on your Flex project.'']),
       Confirm ''Do you still want to continue deploying?'' ''N'']
      @ (if user_reply w = ReplyYes then [] else [LoggerNewline]),
      if user_reply w = ReplyYes then Inr ()
      else Inl (UserActionError (Text
             ''User rejected confirmation to deploy with mismatched React version.'')))"
proof -
  have c: "confirm (user_reply w) ''N'' \<longleftrightarrow> user_reply w = ReplyYes"
    by (cases "user_reply w") (simp_all add: confirm_def)
  show ?thesis
    using assms
    by (auto simp: verifyFlexUIConfiguration_def io_bind_perform io_bind_call_Inr c)
qed

theorem verifyFlexUIConfiguration_mismatch_witness:
  "snd (verifyFlexUIConfiguration example_world ''1.20.0''
          \<lparr> react = JString ''16.5.2'', react_dom = JString ''16.5.2'' \<rparr> True) =
     Inl (UserActionError (Text
       ''User rejected confirmation to deploy with mismatched React version.''))
   \<and> verifyFlexUIConfiguration (example_world \<lparr> user_reply := ReplyYes \<rparr>) ''1.20.0''
          \<lparr> react = JString ''16.5.2'', react_dom = JString ''16.5.2'' \<rparr> True =
     ([LoggerNewline,
       LoggerWarning (SingleLineString
         [''The React version 16.13.1 installed locally'',
          ''is incompatible with the React version 16.5.2 installed on your Flex project.'']),
       LoggerInfo (SingleLineString
         [''Change your local React version or visit https://flex.twilio.com/admin/developers to'',
          ''change the React version installed on your Flex project.'']),
       Confirm ''Do you still want to continue deploying?'' ''N''],
      Inr ())"
proof -
  let ?deps = "\<lparr> react = JString ''16.5.2'', react_dom = JString ''16.5.2'' \<rparr>"
  let ?yes = "example_world \<lparr> user_reply := ReplyYes \<rparr>"
  note m = example_world_mismatch
  have d: "user_reply example_world = ReplyDefault"
    by (simp add: example_world_def)
  have s: "satisfies example_world (VString ''1.19.0'') ''1.20.0''
           \<or> (\<exists>c. coerce example_world ''1.20.0'' = Some c
                  \<and> satisfies example_world (VSemVer c) ''>=1.19.0'')"
    using m(1,2) by blast
  have t: "truthy (react ?deps)" "truthy (react_dom ?deps)"
    by simp_all
  have r: "\<not> satisfies example_world (VString (getPackageVersion example_world ''react''))
               (js_string (react ?deps))
           \<or> \<not> satisfies example_world (VString (getPackageVersion example_world ''react-dom''))
                 (js_string (react_dom ?deps))"
    using m(5) by (simp add: m(3))
  have s': "satisfies ?yes (VString ''1.19.0'') ''1.20.0''
           \<or> (\<exists>c. coerce ?yes ''1.20.0'' = Some c \<and> satisfies ?yes (VSemVer c) ''>=1.19.0'')"
    using s by simp
  have r': "\<not> satisfies ?yes (VString (getPackageVersion ?yes ''react''))
                (js_string (react ?deps))
           \<or> \<not> satisfies ?yes (VString (getPackageVersion ?yes ''react-dom''))
                 (js_string (react_dom ?deps))"
    using r by simp
  have 1: "snd (verifyFlexUIConfiguration example_world ''1.20.0'' ?deps True) =
     Inl (UserActionError (Text
       ''User rejected confirmation to deploy with mismatched React version.''))"
    using verifyFlexUIConfiguration_mismatch [OF s t r] d by simp
  have 2: "verifyFlexUIConfiguration ?yes ''1.20.0'' ?deps True =
     ([LoggerNewline,
       LoggerWarning (SingleLineString
         [''The React version 16.13.1 installed locally'',
          ''is incompatible with the React version 16.5.2 installed on your Flex project.'']),
       LoggerInfo (SingleLineString
         [''Change your local React version or visit https://flex.twilio.com/admin/developers to'',
          ''change the React version installed on your Flex project.'']),
       Confirm ''Do you still want to continue deploying?'' ''N''],
      Inr ())"
    using verifyFlexUIConfiguration_mismatch [OF s' t r'] by (simp add: m(3))
  from 1 2 show ?thesis by (intro conjI)
qed

subsection \<open>The deployment client\<close>

text \<open>
  Claim C10. The constructor of \<open>DeploymentClient\<close> throws for every service sid that
  \<open>isSidOfType\<close> does not accept as a \<open>ZS\<close> sid and for every environment sid that it does
  not accept as a \<open>ZE\<close> sid, and it never issues a call. \<open>create\<close> throws for every build
  sid that is not a \<open>ZB\<close> sid, with an empty trace; its trace has an event only for a
  \<open>ZB\<close> sid, and then it is the one post of the build sid.
\<close>

theorem DeploymentClient_validates_sids:
  "(\<not> isSidOfType w svcSid ''ZS'' \<longrightarrow>
      new_DeploymentClient w auth svcSid envSid =
        ([], Inl (JsError (''ServiceSid '' @ svcSid @ '' is not valid''))))
   \<and> (\<not> isSidOfType w envSid ''ZE'' \<longrightarrow>
      new_DeploymentClient w auth svcSid envSid =
        ([], Inl (JsError (if isSidOfType w svcSid ''ZS''
                           then ''EnvironmentSid '' @ envSid @ '' is not valid''
                           else ''ServiceSid '' @ svcSid @ '' is not valid''))))
   \<and> fst (new_DeploymentClient w auth svcSid envSid) = []
   \<and> (\<not> isSidOfType w buildSid ''ZB'' \<longrightarrow>
      DeploymentClient_create w this buildSid =
        ([], Inl (JsError (buildSid @ '' is not of type ZB''))))
   \<and> (fst (DeploymentClient_create w this buildSid) \<noteq> [] \<longrightarrow> isSidOfType w buildSid ''ZB'')
   \<and> (isSidOfType w buildSid ''ZB'' \<longrightarrow>
      fst (DeploymentClient_create w this buildSid) =
        [HttpPost (client_baseUrl this) ''Deployments'' [(''BuildSid'', buildSid)]])"
  by (auto simp: new_DeploymentClient_def DeploymentClient_create_def SidPrefix_BuildSid_def
        DeploymentClient_BaseUri_def io_throw_def io_return_def)

theorem DeploymentClient_validates_sids_witness:
  "new_DeploymentClient example_world \<lparr> username = ''AC'', password = ''abc'' \<rparr>
     ''ZE00000000000000000000000000000003'' ''ZS00000000000000000000000000000001'' =
     ([], Inl (JsError ''ServiceSid ZE00000000000000000000000000000003 is not valid''))
   \<and> DeploymentClient_create example_world
        \<lparr> client_auth = \<lparr> username = ''AC'', password = ''abc'' \<rparr>, client_baseUrl = ''u'' \<rparr>
        ''ZB0000'' =
     ([], Inl (JsError ''ZB0000 is not of type ZB''))
   \<and> fst (DeploymentClient_create example_world
        \<lparr> client_auth = \<lparr> username = ''AC'', password = ''abc'' \<rparr>, client_baseUrl = ''u'' \<rparr>
        ''ZB00000000000000000000000000000006'') =
     [HttpPost ''u'' ''Deployments'' [(''BuildSid'', ''ZB00000000000000000000000000000006'')]]"
proof -
  let ?auth = "\<lparr> username = ''AC'', password = ''abc'' \<rparr>"
  let ?cl = "\<lparr> client_auth = ?auth, client_baseUrl = ''u'' \<rparr>"
  have a: "\<not> isSidOfType example_world ''ZE00000000000000000000000000000003'' ''ZS''"
    by (simp add: example_world_def sid_of_type_def)
  have b: "\<not> isSidOfType example_world ''ZB0000'' ''ZB''"
    by (simp add: example_world_def sid_of_type_def)
  have c: "isSidOfType example_world ''ZB00000000000000000000000000000006'' ''ZB''"
    by (simp add: example_world_def sid_of_type_def)
  note bad = DeploymentClient_validates_sids
    [of example_world "''ZE00000000000000000000000000000003''" ?auth
      "''ZS00000000000000000000000000000001''" "''ZB0000''" ?cl]
  note good = DeploymentClient_validates_sids
    [of example_world "''ZE00000000000000000000000000000003''" ?auth
      "''ZS00000000000000000000000000000001''" "''ZB00000000000000000000000000000006''" ?cl]
  have 1: "new_DeploymentClient example_world ?auth
     ''ZE00000000000000000000000000000003'' ''ZS00000000000000000000000000000001'' =
     ([], Inl (JsError ''ServiceSid ZE00000000000000000000000000000003 is not valid''))"
    using bad [THEN conjunct1, rule_format, OF a] by simp
  have 2: "DeploymentClient_create example_world ?cl ''ZB0000'' =
     ([], Inl (JsError ''ZB0000 is not of type ZB''))"
    using bad [THEN conjunct2, THEN conjunct2, THEN conjunct2, THEN conjunct1, rule_format, OF b]
    by simp
  have 3: "fst (DeploymentClient_create example_world ?cl
        ''ZB00000000000000000000000000000006'') =
     [HttpPost ''u'' ''Deployments'' [(''BuildSid'', ''ZB00000000000000000000000000000006'')]]"
    using good [THEN conjunct2, THEN conjunct2, THEN conjunct2, THEN conjunct2, THEN conjunct2,
      rule_format, OF c]
    by simp
  from 1 2 3 show ?thesis by (intro conjI)
qed

subsection \<open>The deployment orchestrator\<close>

lemma snd_call [simp]:
  "snd (call ev (Inr x)) = Inr x" "snd (call ev (Inl r)) = Inl (Rejected r)"
  "snd (attempt (Inr x)) = Inr x" "snd (attempt (Inl r)) = Inl (Rejected r)"
  by (simp_all add: call_def attempt_def)

text \<open>
  Claim C9. For every run of \<open>_doDeploy\<close> that fetches the runtime (the call is in its
  trace) and is answered with a runtime that has no environment: the run throws the
  \<open>FlexPluginError\<close> for the missing environment, and the fetch of the runtime is the
  last event of its trace. Nothing follows it: no client is made, the Flex UI version
  is not read, and there is no validation, collision check, upload, build or deployment.
\<close>

theorem doDeploy_no_environment:
  assumes "GetRuntime \<in> set (fst (doDeploy w v options))"
    and "getCredential w = Inr cred"
    and "getRuntime w cred = Inr runtime"
    and "environment runtime = None"
  shows "doDeploy w v options =
     (GetCredential # (if isPluginsPilot options then [HasFlag, PluginsApiWarning] else [])
        @ [LoggerInfo (Text (''Uploading your Flex plugin to Twilio Assets'' @ [CHR 0x0A])),
           GetRuntime],
      Inl (FlexPluginError (Text ''No Runtime environment was found'')))"
proof -
  from assms(1) have files: "checkFilesExist w (app_bundlePath w)"
    by (auto simp: doDeploy_def split: if_splits)
  have client: "new_PluginsApiClient w cred = Inr ()" if "isPluginsPilot options"
    using assms(1) that files assms(2)
    by (cases "new_PluginsApiClient w cred")
       (auto simp: doDeploy_def io_bind_call_Inr io_bind_perform split: if_splits)
  have flag: "hasFlag w cred" if "isPluginsPilot options"
    using assms(1) that files assms(2) client
    by (auto simp: doDeploy_def io_bind_call_Inr io_bind_perform split: if_splits)
  show ?thesis
    using files flag client assms(2-4)
    by (auto simp: doDeploy_def io_bind_call_Inr io_bind_perform io_throw_def perform_def)
qed

theorem doDeploy_no_environment_witness:
  "doDeploy (example_world \<lparr> getRuntime := (\<lambda>_. Inr (example_runtime \<lparr> environment := None \<rparr>)) \<rparr>)
     (JString ''1.2.4'') (example_options \<lparr> isPluginsPilot := True \<rparr>) =
     ([GetCredential, HasFlag, PluginsApiWarning,
       LoggerInfo (Text (''Uploading your Flex plugin to Twilio Assets'' @ [CHR 0x0A])),
       GetRuntime],
      Inl (FlexPluginError (Text ''No Runtime environment was found'')))"
proof -
  let ?runtime = "example_runtime \<lparr> environment := None \<rparr>"
  let ?w = "example_world \<lparr> getRuntime := (\<lambda>_. Inr ?runtime) \<rparr>"
  let ?cred = "\<lparr> username = ''AC00000000000000000000000000000002'', password = ''abc'' \<rparr>"
  let ?options = "example_options \<lparr> isPluginsPilot := True \<rparr>"
  have 1: "GetRuntime \<in> set (fst (doDeploy ?w (JString ''1.2.4'') ?options))"
    by code_simp
  have 2: "getCredential ?w = Inr ?cred"
    by (simp add: example_world_def)
  have 3: "getRuntime ?w ?cred = Inr ?runtime"
    by simp
  have 4: "environment ?runtime = None"
    by simp
  have 5: "isPluginsPilot ?options"
    by simp
  from doDeploy_no_environment [OF 1 2 3 4] 5 show ?thesis
    by simp
qed

lemma deployTo_collision:
  assumes "build runtime = Some b" "\<not> verifyPath base b" "\<not> overwrite options"
  shows "\<not> list_ex is_upload (fst (deployTo w v options base cred runtime env))"
    and "\<exists>e. snd (deployTo w v options base cred runtime env) = Inl e"
    and "Progress ''Validating the new plugin bundle''
           \<in> set (fst (deployTo w v options base cred runtime env)) \<Longrightarrow>
         snd (deployTo w v options base cred runtime env) =
           Inl (FlexPluginError (Text (''You already have a plugin with the same version: ''
                  @ ''https://'' @ domain_name env @ base @ ''/bundle.js'')))"
proof -
  note vb = validateBundle_collision [OF assms]
  show "\<not> list_ex is_upload (fst (deployTo w v options base cred runtime env))"
    unfolding deployTo_def Let_def progress_def list_ex_iff
    by (auto simp: set_fst_io_bind vb new_DeploymentClient_def io_bind_perform
          dest!: verifyFlexUIConfiguration_events split: if_splits)
  show "\<exists>e. snd (deployTo w v options base cred runtime env) = Inl e"
    unfolding deployTo_def Let_def progress_def
    by (auto simp: snd_io_bind vb io_bind_perform split: sum.splits)
  show "snd (deployTo w v options base cred runtime env) =
           Inl (FlexPluginError (Text (''You already have a plugin with the same version: ''
                  @ ''https://'' @ domain_name env @ base @ ''/bundle.js'')))"
    if "Progress ''Validating the new plugin bundle''
           \<in> set (fst (deployTo w v options base cred runtime env))"
    using that
    unfolding deployTo_def Let_def progress_def
    by (auto simp: set_fst_io_bind snd_io_bind vb new_DeploymentClient_def io_bind_perform
          dest!: verifyFlexUIConfiguration_events split: if_splits sum.splits)
qed

text \<open>
  Claim C4 as stated fails: a run is stopped by the first gate that fails, and the
  compatibility validation comes before the collision check. With \<open>UNBUNDLED_REACT\<close> set
  and an account on Flex UI 1.18.0, a run whose existing build already contains the
  bundle path of version 1.2.3 and whose overwrite option is false is stopped by the
  validator, with its error and not with the one of the collision.
\<close>

theorem doDeploy_collision_counterexample:
  "getRuntime (collision_world \<lparr> UNBUNDLED_REACT := Some ''true'', getFlexUIVersion := Inr ''1.18.0'' \<rparr>)
     \<lparr> username = ''AC00000000000000000000000000000002'', password = ''abc'' \<rparr> =
     Inr (example_runtime \<lparr> build := Some example_build \<rparr>)
   \<and> js_replace (assetBaseUrlTemplate
         (collision_world \<lparr> UNBUNDLED_REACT := Some ''true'', getFlexUIVersion := Inr ''1.18.0'' \<rparr>))
       ''%PLUGIN_VERSION%'' ''1.2.3'' @ ''/bundle.js'' \<in> build_paths example_build
   \<and> \<not> overwrite example_options
   \<and> snd (doDeploy
        (collision_world \<lparr> UNBUNDLED_REACT := Some ''true'', getFlexUIVersion := Inr ''1.18.0'' \<rparr>)
        (JString ''1.2.3'') example_options) =
       Inl (FlexPluginError (SingleLineString
          [''We detected that your account is using Flex UI version 1.18.0 which is incompatible'',
           ''with unbundled React. Please visit https://flex.twilio.com/admin/versioning and update to'',
           ''version 1.19 or above.'']))
   \<and> snd (doDeploy
        (collision_world \<lparr> UNBUNDLED_REACT := Some ''true'', getFlexUIVersion := Inr ''1.18.0'' \<rparr>)
        (JString ''1.2.3'') example_options) \<noteq>
       Inl (FlexPluginError (Text
         ''You already have a plugin with the same version: https://default-1234.twil.io/plugins/plugin-test/1.2.3/bundle.js''))"
proof (intro conjI)
  let ?w = "collision_world \<lparr> UNBUNDLED_REACT := Some ''true'', getFlexUIVersion := Inr ''1.18.0'' \<rparr>"
  show "getRuntime ?w \<lparr> username = ''AC00000000000000000000000000000002'', password = ''abc'' \<rparr> =
     Inr (example_runtime \<lparr> build := Some example_build \<rparr>)"
    by (simp add: collision_world_def)
  show "js_replace (assetBaseUrlTemplate ?w) ''%PLUGIN_VERSION%'' ''1.2.3'' @ ''/bundle.js''
          \<in> build_paths example_build"
    by code_simp
  show "\<not> overwrite example_options"
    by (simp add: example_options_def)
  show r: "snd (doDeploy ?w (JString ''1.2.3'') example_options) =
       Inl (FlexPluginError (SingleLineString
          [''We detected that your account is using Flex UI version 1.18.0 which is incompatible'',
           ''with unbundled React. Please visit https://flex.twilio.com/admin/versioning and update to'',
           ''version 1.19 or above.'']))"
    by code_simp
  show "snd (doDeploy ?w (JString ''1.2.3'') example_options) \<noteq>
       Inl (FlexPluginError (Text
         ''You already have a plugin with the same version: https://default-1234.twil.io/plugins/plugin-test/1.2.3/bundle.js''))"
    unfolding r by simp
qed

text \<open>
  Claim C4, amended. For every run of \<open>_doDeploy\<close> that is answered with a runtime whose
  existing build already contains the bundle path of the new version, with the overwrite
  option false: no upload is issued in the run and the run ends with an error; and when
  the run reaches the collision check (the label of the check is in its trace), the
  runtime has an environment and the error is the \<open>FlexPluginError\<close> of the collision,
  whose text names the URL of the plugin.
\<close>

theorem doDeploy_collision:
  assumes "getCredential w = Inr cred"
    and "getRuntime w cred = Inr runtime"
    and "build runtime = Some b"
    and "js_replace (assetBaseUrlTemplate w) ''%PLUGIN_VERSION%'' (js_string v) @ ''/bundle.js''
           \<in> build_paths b"
    and "\<not> overwrite options"
  shows "\<not> list_ex is_upload (fst (doDeploy w v options))
    \<and> (\<exists>e. snd (doDeploy w v options) = Inl e)
    \<and> (Progress ''Validating the new plugin bundle'' \<in> set (fst (doDeploy w v options)) \<longrightarrow>
         (\<exists>env. environment runtime = Some env
            \<and> snd (doDeploy w v options) =
                Inl (FlexPluginError (Text (''You already have a plugin with the same version: ''
                  @ ''https://'' @ domain_name env
                  @ js_replace (assetBaseUrlTemplate w) ''%PLUGIN_VERSION%'' (js_string v)
                  @ ''/bundle.js'')))))"
proof -
  let ?base = "js_replace (assetBaseUrlTemplate w) ''%PLUGIN_VERSION%'' (js_string v)"
  from assms(4) have nv: "\<not> verifyPath ?base b"
    by (simp add: verifyPath_build_paths)
  note dt = deployTo_collision [OF assms(3) nv assms(5)]
  have 1: "\<not> list_ex is_upload (fst (doDeploy w v options))"
    using dt(1) [of w v cred] assms(1,2)
    unfolding doDeploy_def Let_def list_ex_iff
    by (auto simp: set_fst_io_bind snd_call_Inr_iff snd_attempt_Inr_iff io_bind_perform
          split: if_splits option.splits)
  have 2: "\<exists>e. snd (doDeploy w v options) = Inl e"
    using dt(2) [of w v cred] assms(1,2)
    unfolding doDeploy_def Let_def
    by (auto simp: snd_io_bind snd_call_Inr_iff snd_attempt_Inr_iff io_bind_perform
          io_bind_call_Inr split: sum.splits option.splits)
  have 3: "\<exists>env. environment runtime = Some env
            \<and> snd (doDeploy w v options) =
                Inl (FlexPluginError (Text (''You already have a plugin with the same version: ''
                  @ ''https://'' @ domain_name env @ ?base @ ''/bundle.js'')))"
    if "Progress ''Validating the new plugin bundle'' \<in> set (fst (doDeploy w v options))"
    using that dt(3) [of w v cred] assms(1,2)
    unfolding doDeploy_def Let_def
    by (auto simp: set_fst_io_bind snd_io_bind snd_call_Inr_iff snd_attempt_Inr_iff
          io_bind_perform io_bind_call_Inr split: if_splits option.splits sum.splits)
  from 1 2 3 show ?thesis by blast
qed

theorem doDeploy_collision_witness:
  "\<not> list_ex is_upload (fst (doDeploy collision_world (JString ''1.2.3'') example_options))
   \<and> snd (doDeploy collision_world (JString ''1.2.3'') example_options) =
       Inl (FlexPluginError (Text
         ''You already have a plugin with the same version: https://default-1234.twil.io/plugins/plugin-test/1.2.3/bundle.js''))"
proof -
  let ?cred = "\<lparr> username = ''AC00000000000000000000000000000002'', password = ''abc'' \<rparr>"
  let ?runtime = "example_runtime \<lparr> build := Some example_build \<rparr>"
  have 1: "getCredential collision_world = Inr ?cred"
    by (simp add: collision_world_def example_world_def)
  have 2: "getRuntime collision_world ?cred = Inr ?runtime"
    by (simp add: collision_world_def)
  have 3: "build ?runtime = Some example_build"
    by simp
  have 4: "js_replace (assetBaseUrlTemplate collision_world) ''%PLUGIN_VERSION%''
             (js_string (JString ''1.2.3'')) @ ''/bundle.js'' \<in> build_paths example_build"
    by code_simp
  have 5: "\<not> overwrite example_options"
    by (simp add: example_options_def)
  have 6: "Progress ''Validating the new plugin bundle''
             \<in> set (fst (doDeploy collision_world (JString ''1.2.3'') example_options))"
    by code_simp
  have 7: "''https://'' @ domain_name (the (environment ?runtime))
             @ js_replace (assetBaseUrlTemplate collision_world) ''%PLUGIN_VERSION%''
                 (js_string (JString ''1.2.3'')) @ ''/bundle.js'' =
           ''https://default-1234.twil.io/plugins/plugin-test/1.2.3/bundle.js''"
    by code_simp
  note t = doDeploy_collision [OF 1 2 3 4 5]
  from t have a: "\<not> list_ex is_upload (fst (doDeploy collision_world (JString ''1.2.3'') example_options))"
    by (rule conjunct1)
  from t 6 obtain env where e: "environment ?runtime = Some env"
    and r: "snd (doDeploy collision_world (JString ''1.2.3'') example_options) =
       Inl (FlexPluginError (Text (''You already have a plugin with the same version: ''
         @ ''https://'' @ domain_name env
         @ js_replace (assetBaseUrlTemplate collision_world) ''%PLUGIN_VERSION%''
             (js_string (JString ''1.2.3'')) @ ''/bundle.js'')))"
    by blast
  from e have "env = the (environment ?runtime)"
    by simp
  with r 7 have "snd (doDeploy collision_world (JString ''1.2.3'') example_options) =
       Inl (FlexPluginError (Text (''You already have a plugin with the same version: ''
         @ ''https://default-1234.twil.io/plugins/plugin-test/1.2.3/bundle.js'')))"
    by (simp only:)
  then have b: "snd (doDeploy collision_world (JString ''1.2.3'') example_options) =
       Inl (FlexPluginError (Text
         ''You already have a plugin with the same version: https://default-1234.twil.io/plugins/plugin-test/1.2.3/bundle.js''))"
    by simp
  from a b show ?thesis by (intro conjI)
qed

lemma deployTo_BuildCreate:
  assumes "BuildCreate data \<in> set (fst (deployTo w v options base cred runtime env))"
  shows "\<exists>bundleVersion sourceMapVersion.
     upload w (app_name w) (base @ ''/bundle.js'') (app_bundlePath w) (\<not> isPublic options)
       = Inr bundleVersion
     \<and> upload w (app_name w) (base @ ''/bundle.js.map'') (app_sourceMapPath w) (\<not> isPublic options)
       = Inr sourceMapVersion
     \<and> data = \<lparr> FunctionVersions =
                   map sid (case build runtime of Some b \<Rightarrow> function_versions b | None \<Rightarrow> []),
                 AssetVersions =
                   map sid (carried_assets (build runtime) base (overwrite options))
                   @ [sid bundleVersion, sid sourceMapVersion],
                 Dependencies = (case build runtime of Some b \<Rightarrow> dependencies b | None \<Rightarrow> []) \<rparr>"
  using assms
  unfolding deployTo_def Let_def progress_def
  apply (simp add: set_fst_io_bind new_DeploymentClient_def io_bind_perform split: if_splits)
  apply (elim disjE exE conjE)
  apply (auto dest!: verifyFlexUIConfiguration_events validateBundle_events uploadBundle_events
      getAccount_events deployBuild_BuildCreate uploadBundle_result validateBundle_result
      simp: carried_assets_def snd_io_bind io_bind_perform split: sum.splits option.splits if_splits)
  done

lemma deployTo_Registering:
  assumes "Progress ''Registering plugin with Flex''
             \<in> set (fst (deployTo w v options base cred runtime env))"
  shows "\<exists>composed.
     snd (uploadBundle w options (base @ ''/bundle.js'') (base @ ''/bundle.js.map'')
            (case build runtime of Some b \<Rightarrow> \<not> verifyPath base b | None \<Rightarrow> False)
            (case build runtime of Some b \<Rightarrow> asset_versions b | None \<Rightarrow> [])
            (case build runtime of Some b \<Rightarrow> function_versions b | None \<Rightarrow> [])
            (case build runtime of Some b \<Rightarrow> dependencies b | None \<Rightarrow> [])) = Inr composed"
  using assms
  unfolding deployTo_def Let_def progress_def
  apply (simp add: set_fst_io_bind new_DeploymentClient_def io_bind_perform split: if_splits)
  apply (elim disjE exE conjE)
  apply (auto dest!: verifyFlexUIConfiguration_events validateBundle_events uploadBundle_events
      validateBundle_result
      simp: snd_io_bind io_bind_perform split: sum.splits option.splits if_splits)
  done

lemma carried_assets_filter:
  "(if (case existing of Some b \<Rightarrow> \<not> verifyPath base b | None \<Rightarrow> False) \<and> overwriting
    then filter (\<lambda>v. path v \<noteq> base @ ''/bundle.js'' \<and> path v \<noteq> base @ ''/bundle.js.map'')
           (case existing of Some b \<Rightarrow> asset_versions b | None \<Rightarrow> [])
    else (case existing of Some b \<Rightarrow> asset_versions b | None \<Rightarrow> []))
   = carried_assets existing base overwriting"
  by (simp add: carried_assets_def split: option.splits)

lemma doDeploy_Registering:
  assumes "Progress ''Registering plugin with Flex'' \<in> set (fst (doDeploy w v options))"
    and "base = js_replace (assetBaseUrlTemplate w) ''%PLUGIN_VERSION%'' (js_string v)"
  shows "\<exists>cred runtime bundleVersion sourceMapVersion.
     getCredential w = Inr cred \<and> getRuntime w cred = Inr runtime
     \<and> upload w (app_name w) (base @ ''/bundle.js'') (app_bundlePath w) (\<not> isPublic options)
         = Inr bundleVersion
     \<and> upload w (app_name w) (base @ ''/bundle.js.map'') (app_sourceMapPath w) (\<not> isPublic options)
         = Inr sourceMapVersion
     \<and> snd (uploadBundle w options (base @ ''/bundle.js'') (base @ ''/bundle.js.map'')
            (case build runtime of Some b \<Rightarrow> \<not> verifyPath base b | None \<Rightarrow> False)
            (case build runtime of Some b \<Rightarrow> asset_versions b | None \<Rightarrow> [])
            (case build runtime of Some b \<Rightarrow> function_versions b | None \<Rightarrow> [])
            (case build runtime of Some b \<Rightarrow> dependencies b | None \<Rightarrow> [])) =
         Inr \<lparr> FunctionVersions =
                 map sid (case build runtime of Some b \<Rightarrow> function_versions b | None \<Rightarrow> []),
               AssetVersions =
                 map sid (carried_assets (build runtime) base (overwrite options))
                 @ [sid bundleVersion, sid sourceMapVersion],
               Dependencies = (case build runtime of Some b \<Rightarrow> dependencies b | None \<Rightarrow> []) \<rparr>"
proof -
  from assms(1) obtain cred runtime env where
    c: "getCredential w = Inr cred" and r: "getRuntime w cred = Inr runtime"
    and d: "Progress ''Registering plugin with Flex''
              \<in> set (fst (deployTo w v options base cred runtime env))"
    unfolding doDeploy_def Let_def assms(2)
    by (auto simp: set_fst_io_bind snd_call_Inr_iff split: if_splits option.splits)
  from deployTo_Registering [OF d] obtain composed where
    u: "snd (uploadBundle w options (base @ ''/bundle.js'') (base @ ''/bundle.js.map'')
            (case build runtime of Some b \<Rightarrow> \<not> verifyPath base b | None \<Rightarrow> False)
            (case build runtime of Some b \<Rightarrow> asset_versions b | None \<Rightarrow> [])
            (case build runtime of Some b \<Rightarrow> function_versions b | None \<Rightarrow> [])
            (case build runtime of Some b \<Rightarrow> dependencies b | None \<Rightarrow> [])) = Inr composed"
    by blast
  from uploadBundle_result [OF u] obtain bundleVersion sourceMapVersion where
    b: "upload w (app_name w) (base @ ''/bundle.js'') (app_bundlePath w) (\<not> isPublic options)
         = Inr bundleVersion"
    and m: "upload w (app_name w) (base @ ''/bundle.js.map'') (app_sourceMapPath w)
         (\<not> isPublic options) = Inr sourceMapVersion"
    and e: "composed = \<lparr> FunctionVersions =
                 map sid (case build runtime of Some b \<Rightarrow> function_versions b | None \<Rightarrow> []),
               AssetVersions =
                 map sid (carried_assets (build runtime) base (overwrite options))
                 @ [sid bundleVersion, sid sourceMapVersion],
               Dependencies = (case build runtime of Some b \<Rightarrow> dependencies b | None \<Rightarrow> []) \<rparr>"
    unfolding carried_assets_filter by blast
  from c r b m u e show ?thesis
    by (intro exI [of _ cred] exI [of _ runtime] exI [of _ bundleVersion]
          exI [of _ sourceMapVersion]) simp
qed

lemma doDeploy_BuildCreate:
  assumes "BuildCreate data \<in> set (fst (doDeploy w v options))"
    and "base = js_replace (assetBaseUrlTemplate w) ''%PLUGIN_VERSION%'' (js_string v)"
  shows "\<exists>cred runtime bundleVersion sourceMapVersion.
     getCredential w = Inr cred \<and> getRuntime w cred = Inr runtime
     \<and> upload w (app_name w) (base @ ''/bundle.js'') (app_bundlePath w) (\<not> isPublic options)
         = Inr bundleVersion
     \<and> upload w (app_name w) (base @ ''/bundle.js.map'') (app_sourceMapPath w) (\<not> isPublic options)
         = Inr sourceMapVersion
     \<and> FunctionVersions data =
         map sid (case build runtime of Some b \<Rightarrow> function_versions b | None \<Rightarrow> [])
     \<and> Dependencies data = (case build runtime of Some b \<Rightarrow> dependencies b | None \<Rightarrow> [])
     \<and> AssetVersions data =
         map sid (carried_assets (build runtime) base (overwrite options))
         @ [sid bundleVersion, sid sourceMapVersion]
     \<and> (build runtime = None \<longrightarrow>
          AssetVersions data = [sid bundleVersion, sid sourceMapVersion]
          \<and> length (AssetVersions data) = 2)"
proof -
  from assms(1) obtain cred runtime env where
    c: "getCredential w = Inr cred" and r: "getRuntime w cred = Inr runtime"
    and d: "BuildCreate data \<in> set (fst (deployTo w v options base cred runtime env))"
    unfolding doDeploy_def Let_def assms(2)
    by (auto simp: set_fst_io_bind snd_call_Inr_iff split: if_splits option.splits)
  from deployTo_BuildCreate [OF d] obtain bundleVersion sourceMapVersion where
    u: "upload w (app_name w) (base @ ''/bundle.js'') (app_bundlePath w) (\<not> isPublic options)
         = Inr bundleVersion"
       "upload w (app_name w) (base @ ''/bundle.js.map'') (app_sourceMapPath w) (\<not> isPublic options)
         = Inr sourceMapVersion"
    and e: "data = \<lparr> FunctionVersions =
                   map sid (case build runtime of Some b \<Rightarrow> function_versions b | None \<Rightarrow> []),
                 AssetVersions =
                   map sid (carried_assets (build runtime) base (overwrite options))
                   @ [sid bundleVersion, sid sourceMapVersion],
                 Dependencies = (case build runtime of Some b \<Rightarrow> dependencies b | None \<Rightarrow> []) \<rparr>"
    by blast
  have n: "AssetVersions data = [sid bundleVersion, sid sourceMapVersion]
           \<and> length (AssetVersions data) = 2" if "build runtime = None"
    using that e by (simp add: carried_assets_def)
  from c r u e n show ?thesis
    by (intro exI [of _ cred] exI [of _ runtime] exI [of _ bundleVersion]
          exI [of _ sourceMapVersion]) simp
qed

lemma uploadBundle_total:
  assumes "upload w (app_name w) bu (app_bundlePath w) (\<not> isPublic options) = Inr bundleVersion"
    and "upload w (app_name w) su (app_sourceMapPath w) (\<not> isPublic options) = Inr sourceMapVersion"
  shows "uploadBundle w options bu su rc ba bf bd =
     ([AssetUpload (app_name w) bu (app_bundlePath w) (\<not> isPublic options),
       AssetUpload (app_name w) su (app_sourceMapPath w) (\<not> isPublic options)],
      Inr \<lparr> FunctionVersions = map sid bf,
            AssetVersions =
              map sid (if rc \<and> overwrite options
                       then filter (\<lambda>v. path v \<noteq> bu \<and> path v \<noteq> su) ba else ba)
              @ [sid bundleVersion, sid sourceMapVersion],
            Dependencies = bd \<rparr>)"
  using assms
  by (simp add: uploadBundle_def io_bind_call_Inr io_return_def)

lemma validateBundle_passes:
  assumes "(case build runtime of Some b \<Rightarrow> \<not> verifyPath base b | None \<Rightarrow> False)
             \<longrightarrow> overwrite options"
  shows "snd (validateBundle options runtime base url) =
           Inr (case build runtime of Some b \<Rightarrow> \<not> verifyPath base b | None \<Rightarrow> False)"
  using assms
  by (auto simp: validateBundle_def Let_def snd_io_bind io_bind_perform split: option.splits)

lemma deployBuild_issues_BuildCreate:
  "BuildCreate d \<in> set (fst (deployBuild w c d v))"
  by (simp add: deployBuild_def set_fst_io_bind)

lemma deployTo_total:
  assumes "new_ConfigurationClient w cred = Inr ()"
    and "new_BuildClient w cred (service_sid (service runtime)) = Inr ()"
    and "new_AssetClient w cred (service_sid (service runtime)) = Inr ()"
    and "isSidOfType w (service_sid (service runtime)) ''ZS''"
    and "isSidOfType w (environment_sid env) ''ZE''"
    and "getFlexUIVersion w = Inr uiVersion"
    and "getUIDependencies w = Inr uiDependencies"
    and "snd (verifyFlexUIConfiguration w uiVersion uiDependencies
                (UNBUNDLED_REACT w = Some ''true'')) = Inr ()"
    and "(case build runtime of Some b \<Rightarrow> \<not> verifyPath base b | None \<Rightarrow> False)
           \<longrightarrow> overwrite options"
    and "upload w (app_name w) (base @ ''/bundle.js'') (app_bundlePath w) (\<not> isPublic options)
           = Inr bundleVersion"
    and "upload w (app_name w) (base @ ''/bundle.js.map'') (app_sourceMapPath w)
           (\<not> isPublic options) = Inr sourceMapVersion"
    and "registerSid w (service_sid (service runtime)) = Inr ()"
  shows "BuildCreate
           \<lparr> FunctionVersions =
               map sid (case build runtime of Some b \<Rightarrow> function_versions b | None \<Rightarrow> []),
             AssetVersions =
               map sid (carried_assets (build runtime) base (overwrite options))
               @ [sid bundleVersion, sid sourceMapVersion],
             Dependencies = (case build runtime of Some b \<Rightarrow> dependencies b | None \<Rightarrow> []) \<rparr>
         \<in> set (fst (deployTo w v options base cred runtime env))"
proof -
  note ub = uploadBundle_total [OF assms(10) assms(11)]
  note vb = validateBundle_passes [OF assms(9)]
  show ?thesis
    unfolding deployTo_def Let_def progress_def
    using assms(1-8) assms(12)
    by (simp add: set_fst_io_bind snd_io_bind new_DeploymentClient_def io_bind_perform
          io_bind_call_Inr ub vb carried_assets_filter deployBuild_issues_BuildCreate)
qed

lemma doDeploy_total:
  assumes "base = js_replace (assetBaseUrlTemplate w) ''%PLUGIN_VERSION%'' (js_string v)"
    and "checkFilesExist w (app_bundlePath w)"
    and "getCredential w = Inr cred"
    and "isPluginsPilot options \<longrightarrow> new_PluginsApiClient w cred = Inr () \<and> hasFlag w cred"
    and "getRuntime w cred = Inr runtime"
    and "environment runtime = Some env"
    and "new_ConfigurationClient w cred = Inr ()"
    and "new_BuildClient w cred (service_sid (service runtime)) = Inr ()"
    and "new_AssetClient w cred (service_sid (service runtime)) = Inr ()"
    and "isSidOfType w (service_sid (service runtime)) ''ZS''"
    and "isSidOfType w (environment_sid env) ''ZE''"
    and "getFlexUIVersion w = Inr uiVersion"
    and "getUIDependencies w = Inr uiDependencies"
    and "snd (verifyFlexUIConfiguration w uiVersion uiDependencies
                (UNBUNDLED_REACT w = Some ''true'')) = Inr ()"
    and "(case build runtime of Some b \<Rightarrow> \<not> verifyPath base b | None \<Rightarrow> False)
           \<longrightarrow> overwrite options"
    and "upload w (app_name w) (base @ ''/bundle.js'') (app_bundlePath w) (\<not> isPublic options)
           = Inr bundleVersion"
    and "upload w (app_name w) (base @ ''/bundle.js.map'') (app_sourceMapPath w)
           (\<not> isPublic options) = Inr sourceMapVersion"
    and "registerSid w (service_sid (service runtime)) = Inr ()"
  shows "BuildCreate
           \<lparr> FunctionVersions =
               map sid (case build runtime of Some b \<Rightarrow> function_versions b | None \<Rightarrow> []),
             AssetVersions =
               map sid (carried_assets (build runtime) base (overwrite options))
               @ [sid bundleVersion, sid sourceMapVersion],
             Dependencies = (case build runtime of Some b \<Rightarrow> dependencies b | None \<Rightarrow> []) \<rparr>
         \<in> set (fst (doDeploy w v options))"
proof -
  note dt = deployTo_total [OF assms(7-18), of v]
  show ?thesis
    unfolding doDeploy_def Let_def assms(1) [symmetric]
    using assms(2-6) dt
    by (auto simp: set_fst_io_bind snd_io_bind io_bind_perform io_bind_call_Inr)
qed

text \<open>
  Claim C3. The composed build is produced as the claim says. In every run of
  \<open>_doDeploy\<close> in which each step up to the registration is answered (the build file
  exists, the credential, the pilot gate, a runtime with an environment, the clients,
  the compatibility validation, no collision that is not overwritten, both uploads and
  the registration), the data handed to \<open>BuildClient.create\<close> is: the function version
  sids of the existing build, in order; the dependencies of the existing build; and as
  asset version sids those of the existing build, in order, without the records at the
  paths of the new bundle and of its source map when the collision check found a
  collision and the overwrite option is set, and then the sids of the two uploads, the
  bundle first. The composition itself, once both uploads are answered, issues exactly
  the two uploads and returns that data. Conversely, a run that goes on to the
  registration has composed this data, every build data that a run hands to
  \<open>BuildClient.create\<close> is composed so, and with no existing build its asset version
  sids are the two new ones: exactly 2 entries.
\<close>

theorem doDeploy_composed_build:
  assumes "base = js_replace (assetBaseUrlTemplate w) ''%PLUGIN_VERSION%'' (js_string v)"
  shows "(checkFilesExist w (app_bundlePath w)
      \<and> getCredential w = Inr cred
      \<and> (isPluginsPilot options \<longrightarrow> new_PluginsApiClient w cred = Inr () \<and> hasFlag w cred)
      \<and> getRuntime w cred = Inr runtime
      \<and> environment runtime = Some env
      \<and> new_ConfigurationClient w cred = Inr ()
      \<and> new_BuildClient w cred (service_sid (service runtime)) = Inr ()
      \<and> new_AssetClient w cred (service_sid (service runtime)) = Inr ()
      \<and> isSidOfType w (service_sid (service runtime)) ''ZS''
      \<and> isSidOfType w (environment_sid env) ''ZE''
      \<and> getFlexUIVersion w = Inr uiVersion
      \<and> getUIDependencies w = Inr uiDependencies
      \<and> snd (verifyFlexUIConfiguration w uiVersion uiDependencies
                (UNBUNDLED_REACT w = Some ''true'')) = Inr ()
      \<and> ((case build runtime of Some b \<Rightarrow> \<not> verifyPath base b | None \<Rightarrow> False)
            \<longrightarrow> overwrite options)
      \<and> upload w (app_name w) (base @ ''/bundle.js'') (app_bundlePath w) (\<not> isPublic options)
            = Inr bundleVersion
      \<and> upload w (app_name w) (base @ ''/bundle.js.map'') (app_sourceMapPath w)
            (\<not> isPublic options) = Inr sourceMapVersion
      \<and> registerSid w (service_sid (service runtime)) = Inr ()
     \<longrightarrow>
       BuildCreate
         \<lparr> FunctionVersions =
             map sid (case build runtime of Some b \<Rightarrow> function_versions b | None \<Rightarrow> []),
           AssetVersions =
             map sid (carried_assets (build runtime) base (overwrite options))
             @ [sid bundleVersion, sid sourceMapVersion],
           Dependencies = (case build runtime of Some b \<Rightarrow> dependencies b | None \<Rightarrow> []) \<rparr>
       \<in> set (fst (doDeploy w v options)))
    \<and> (upload w (app_name w) (base @ ''/bundle.js'') (app_bundlePath w) (\<not> isPublic options)
            = Inr bundleVersion
      \<and> upload w (app_name w) (base @ ''/bundle.js.map'') (app_sourceMapPath w)
            (\<not> isPublic options) = Inr sourceMapVersion
     \<longrightarrow>
       uploadBundle w options (base @ ''/bundle.js'') (base @ ''/bundle.js.map'') routeCollision
         buildAssets buildFunctions buildDependencies =
       ([AssetUpload (app_name w) (base @ ''/bundle.js'') (app_bundlePath w) (\<not> isPublic options),
         AssetUpload (app_name w) (base @ ''/bundle.js.map'') (app_sourceMapPath w)
           (\<not> isPublic options)],
        Inr \<lparr> FunctionVersions = map sid buildFunctions,
              AssetVersions =
                map sid (if routeCollision \<and> overwrite options
                         then filter (\<lambda>x. path x \<noteq> base @ ''/bundle.js''
                                        \<and> path x \<noteq> base @ ''/bundle.js.map'') buildAssets
                         else buildAssets)
                @ [sid bundleVersion, sid sourceMapVersion],
              Dependencies = buildDependencies \<rparr>))
    \<and> (Progress ''Registering plugin with Flex'' \<in> set (fst (doDeploy w v options)) \<longrightarrow>
      (\<exists>cred' runtime' bundleVersion' sourceMapVersion'.
         getCredential w = Inr cred' \<and> getRuntime w cred' = Inr runtime'
         \<and> upload w (app_name w) (base @ ''/bundle.js'') (app_bundlePath w) (\<not> isPublic options)
             = Inr bundleVersion'
         \<and> upload w (app_name w) (base @ ''/bundle.js.map'') (app_sourceMapPath w)
             (\<not> isPublic options) = Inr sourceMapVersion'
         \<and> snd (uploadBundle w options (base @ ''/bundle.js'') (base @ ''/bundle.js.map'')
                (case build runtime' of Some b \<Rightarrow> \<not> verifyPath base b | None \<Rightarrow> False)
                (case build runtime' of Some b \<Rightarrow> asset_versions b | None \<Rightarrow> [])
                (case build runtime' of Some b \<Rightarrow> function_versions b | None \<Rightarrow> [])
                (case build runtime' of Some b \<Rightarrow> dependencies b | None \<Rightarrow> [])) =
             Inr \<lparr> FunctionVersions =
                     map sid (case build runtime' of Some b \<Rightarrow> function_versions b | None \<Rightarrow> []),
                   AssetVersions =
                     map sid (carried_assets (build runtime') base (overwrite options))
                     @ [sid bundleVersion', sid sourceMapVersion'],
                   Dependencies =
                     (case build runtime' of Some b \<Rightarrow> dependencies b | None \<Rightarrow> []) \<rparr>))
    \<and> (BuildCreate data \<in> set (fst (doDeploy w v options)) \<longrightarrow>
      (\<exists>cred' runtime' bundleVersion' sourceMapVersion'.
         getCredential w = Inr cred' \<and> getRuntime w cred' = Inr runtime'
         \<and> upload w (app_name w) (base @ ''/bundle.js'') (app_bundlePath w) (\<not> isPublic options)
             = Inr bundleVersion'
         \<and> upload w (app_name w) (base @ ''/bundle.js.map'') (app_sourceMapPath w)
             (\<not> isPublic options) = Inr sourceMapVersion'
         \<and> FunctionVersions data =
             map sid (case build runtime' of Some b \<Rightarrow> function_versions b | None \<Rightarrow> [])
         \<and> Dependencies data = (case build runtime' of Some b \<Rightarrow> dependencies b | None \<Rightarrow> [])
         \<and> AssetVersions data =
             map sid (carried_assets (build runtime') base (overwrite options))
             @ [sid bundleVersion', sid sourceMapVersion']
         \<and> (build runtime' = None \<longrightarrow>
              AssetVersions data = [sid bundleVersion', sid sourceMapVersion']
              \<and> length (AssetVersions data) = 2)))"
proof (intro conjI impI)
  assume "checkFilesExist w (app_bundlePath w)
      \<and> getCredential w = Inr cred
      \<and> (isPluginsPilot options \<longrightarrow> new_PluginsApiClient w cred = Inr () \<and> hasFlag w cred)
      \<and> getRuntime w cred = Inr runtime
      \<and> environment runtime = Some env
      \<and> new_ConfigurationClient w cred = Inr ()
      \<and> new_BuildClient w cred (service_sid (service runtime)) = Inr ()
      \<and> new_AssetClient w cred (service_sid (service runtime)) = Inr ()
      \<and> isSidOfType w (service_sid (service runtime)) ''ZS''
      \<and> isSidOfType w (environment_sid env) ''ZE''
      \<and> getFlexUIVersion w = Inr uiVersion
      \<and> getUIDependencies w = Inr uiDependencies
      \<and> snd (verifyFlexUIConfiguration w uiVersion uiDependencies
                (UNBUNDLED_REACT w = Some ''true'')) = Inr ()
      \<and> ((case build runtime of Some b \<Rightarrow> \<not> verifyPath base b | None \<Rightarrow> False)
            \<longrightarrow> overwrite options)
      \<and> upload w (app_name w) (base @ ''/bundle.js'') (app_bundlePath w) (\<not> isPublic options)
            = Inr bundleVersion
      \<and> upload w (app_name w) (base @ ''/bundle.js.map'') (app_sourceMapPath w)
            (\<not> isPublic options) = Inr sourceMapVersion
      \<and> registerSid w (service_sid (service runtime)) = Inr ()"
  then show "BuildCreate
         \<lparr> FunctionVersions =
             map sid (case build runtime of Some b \<Rightarrow> function_versions b | None \<Rightarrow> []),
           AssetVersions =
             map sid (carried_assets (build runtime) base (overwrite options))
             @ [sid bundleVersion, sid sourceMapVersion],
           Dependencies = (case build runtime of Some b \<Rightarrow> dependencies b | None \<Rightarrow> []) \<rparr>
       \<in> set (fst (doDeploy w v options))"
    by (intro doDeploy_total [OF assms]) (elim conjE, assumption)+
next
  assume "upload w (app_name w) (base @ ''/bundle.js'') (app_bundlePath w) (\<not> isPublic options)
            = Inr bundleVersion
      \<and> upload w (app_name w) (base @ ''/bundle.js.map'') (app_sourceMapPath w)
            (\<not> isPublic options) = Inr sourceMapVersion"
  then show "uploadBundle w options (base @ ''/bundle.js'') (base @ ''/bundle.js.map'')
         routeCollision buildAssets buildFunctions buildDependencies =
       ([AssetUpload (app_name w) (base @ ''/bundle.js'') (app_bundlePath w) (\<not> isPublic options),
         AssetUpload (app_name w) (base @ ''/bundle.js.map'') (app_sourceMapPath w)
           (\<not> isPublic options)],
        Inr \<lparr> FunctionVersions = map sid buildFunctions,
              AssetVersions =
                map sid (if routeCollision \<and> overwrite options
                         then filter (\<lambda>x. path x \<noteq> base @ ''/bundle.js''
                                        \<and> path x \<noteq> base @ ''/bundle.js.map'') buildAssets
                         else buildAssets)
                @ [sid bundleVersion, sid sourceMapVersion],
              Dependencies = buildDependencies \<rparr>)"
    by (intro uploadBundle_total) (elim conjE, assumption)+
next
  assume "Progress ''Registering plugin with Flex'' \<in> set (fst (doDeploy w v options))"
  from doDeploy_Registering [OF this assms]
  show "\<exists>cred' runtime' bundleVersion' sourceMapVersion'.
         getCredential w = Inr cred' \<and> getRuntime w cred' = Inr runtime'
         \<and> upload w (app_name w) (base @ ''/bundle.js'') (app_bundlePath w) (\<not> isPublic options)
             = Inr bundleVersion'
         \<and> upload w (app_name w) (base @ ''/bundle.js.map'') (app_sourceMapPath w)
             (\<not> isPublic options) = Inr sourceMapVersion'
         \<and> snd (uploadBundle w options (base @ ''/bundle.js'') (base @ ''/bundle.js.map'')
                (case build runtime' of Some b \<Rightarrow> \<not> verifyPath base b | None \<Rightarrow> False)
                (case build runtime' of Some b \<Rightarrow> asset_versions b | None \<Rightarrow> [])
                (case build runtime' of Some b \<Rightarrow> function_versions b | None \<Rightarrow> [])
                (case build runtime' of Some b \<Rightarrow> dependencies b | None \<Rightarrow> [])) =
             Inr \<lparr> FunctionVersions =
                     map sid (case build runtime' of Some b \<Rightarrow> function_versions b | None \<Rightarrow> []),
                   AssetVersions =
                     map sid (carried_assets (build runtime') base (overwrite options))
                     @ [sid bundleVersion', sid sourceMapVersion'],
                   Dependencies =
                     (case build runtime' of Some b \<Rightarrow> dependencies b | None \<Rightarrow> []) \<rparr>" .
next
  assume "BuildCreate data \<in> set (fst (doDeploy w v options))"
  from doDeploy_BuildCreate [OF this assms]
  show "\<exists>cred' runtime' bundleVersion' sourceMapVersion'.
         getCredential w = Inr cred' \<and> getRuntime w cred' = Inr runtime'
         \<and> upload w (app_name w) (base @ ''/bundle.js'') (app_bundlePath w) (\<not> isPublic options)
             = Inr bundleVersion'
         \<and> upload w (app_name w) (base @ ''/bundle.js.map'') (app_sourceMapPath w)
             (\<not> isPublic options) = Inr sourceMapVersion'
         \<and> FunctionVersions data =
             map sid (case build runtime' of Some b \<Rightarrow> function_versions b | None \<Rightarrow> [])
         \<and> Dependencies data = (case build runtime' of Some b \<Rightarrow> dependencies b | None \<Rightarrow> [])
         \<and> AssetVersions data =
             map sid (carried_assets (build runtime') base (overwrite options))
             @ [sid bundleVersion', sid sourceMapVersion']
         \<and> (build runtime' = None \<longrightarrow>
              AssetVersions data = [sid bundleVersion', sid sourceMapVersion']
              \<and> length (AssetVersions data) = 2)" .
qed

theorem doDeploy_composed_build_witness:
  "BuildCreate
     \<lparr> FunctionVersions = [''ZN00000000000000000000000000000014''],
       AssetVersions = [''ZN00000000000000000000000000000013'',
         ''ZN00000000000000000000000000000004'', ''ZN00000000000000000000000000000005''],
       Dependencies = [(''lodash'', ''4.17.21'')] \<rparr>
     \<in> set (fst (doDeploy collision_world (JString ''1.2.3'')
                   (example_options \<lparr> overwrite := True \<rparr>)))
   \<and> BuildCreate
     \<lparr> FunctionVersions = [],
       AssetVersions = [''ZN00000000000000000000000000000004'',
         ''ZN00000000000000000000000000000005''],
       Dependencies = [] \<rparr>
     \<in> set (fst (doDeploy example_world (JString ''1.2.4'') example_options))
   \<and> uploadBundle collision_world (example_options \<lparr> overwrite := True \<rparr>)
       ''/plugins/plugin-test/1.2.3/bundle.js'' ''/plugins/plugin-test/1.2.3/bundle.js.map''
       True (asset_versions example_build) (function_versions example_build)
       (dependencies example_build) =
     ([AssetUpload ''plugin-test'' ''/plugins/plugin-test/1.2.3/bundle.js''
         ''build/plugin-test.js'' True,
       AssetUpload ''plugin-test'' ''/plugins/plugin-test/1.2.3/bundle.js.map''
         ''build/plugin-test.js.map'' True],
      Inr \<lparr> FunctionVersions = [''ZN00000000000000000000000000000014''],
            AssetVersions = [''ZN00000000000000000000000000000013'',
              ''ZN00000000000000000000000000000004'', ''ZN00000000000000000000000000000005''],
            Dependencies = [(''lodash'', ''4.17.21'')] \<rparr>)"
proof (intro conjI)
  let ?cred = "\<lparr> username = ''AC00000000000000000000000000000002'', password = ''abc'' \<rparr>"
  let ?env = "\<lparr> environment_sid = ''ZE00000000000000000000000000000003'',
                domain_name = ''default-1234.twil.io'' \<rparr>"
  let ?deps = "\<lparr> react = JString ''16.5.2'', react_dom = JString ''16.5.2'' \<rparr>"
  let ?over = "example_options \<lparr> overwrite := True \<rparr>"
  let ?old = "example_runtime \<lparr> build := Some example_build \<rparr>"
  let ?b3 = "\<lparr> path = ''/plugins/plugin-test/1.2.3/bundle.js'',
               sid = ''ZN00000000000000000000000000000004'' \<rparr>"
  let ?m3 = "\<lparr> path = ''/plugins/plugin-test/1.2.3/bundle.js.map'',
               sid = ''ZN00000000000000000000000000000005'' \<rparr>"
  let ?b4 = "\<lparr> path = ''/plugins/plugin-test/1.2.4/bundle.js'',
               sid = ''ZN00000000000000000000000000000004'' \<rparr>"
  let ?m4 = "\<lparr> path = ''/plugins/plugin-test/1.2.4/bundle.js.map'',
               sid = ''ZN00000000000000000000000000000005'' \<rparr>"
  have base3: "''/plugins/plugin-test/1.2.3'' =
      js_replace (assetBaseUrlTemplate collision_world) ''%PLUGIN_VERSION%''
        (js_string (JString ''1.2.3''))"
    by code_simp
  have base4: "''/plugins/plugin-test/1.2.4'' =
      js_replace (assetBaseUrlTemplate example_world) ''%PLUGIN_VERSION%''
        (js_string (JString ''1.2.4''))"
    by code_simp
  have run3: "checkFilesExist collision_world (app_bundlePath collision_world)
      \<and> getCredential collision_world = Inr ?cred
      \<and> (isPluginsPilot ?over \<longrightarrow>
            new_PluginsApiClient collision_world ?cred = Inr () \<and> hasFlag collision_world ?cred)
      \<and> getRuntime collision_world ?cred = Inr ?old
      \<and> environment ?old = Some ?env
      \<and> new_ConfigurationClient collision_world ?cred = Inr ()
      \<and> new_BuildClient collision_world ?cred (service_sid (service ?old)) = Inr ()
      \<and> new_AssetClient collision_world ?cred (service_sid (service ?old)) = Inr ()
      \<and> isSidOfType collision_world (service_sid (service ?old)) ''ZS''
      \<and> isSidOfType collision_world (environment_sid ?env) ''ZE''
      \<and> getFlexUIVersion collision_world = Inr ''1.20.0''
      \<and> getUIDependencies collision_world = Inr ?deps
      \<and> snd (verifyFlexUIConfiguration collision_world ''1.20.0'' ?deps
                (UNBUNDLED_REACT collision_world = Some ''true'')) = Inr ()
      \<and> ((case build ?old of
             Some b \<Rightarrow> \<not> verifyPath ''/plugins/plugin-test/1.2.3'' b | None \<Rightarrow> False)
            \<longrightarrow> overwrite ?over)
      \<and> upload collision_world (app_name collision_world)
            (''/plugins/plugin-test/1.2.3'' @ ''/bundle.js'') (app_bundlePath collision_world)
            (\<not> isPublic ?over) = Inr ?b3
      \<and> upload collision_world (app_name collision_world)
            (''/plugins/plugin-test/1.2.3'' @ ''/bundle.js.map'')
            (app_sourceMapPath collision_world) (\<not> isPublic ?over) = Inr ?m3
      \<and> registerSid collision_world (service_sid (service ?old)) = Inr ()"
    by (simp add: collision_world_def example_world_def example_options_def
          example_runtime_def sid_of_type_def verifyFlexUIConfiguration_def io_return_def)
  have data3: "\<lparr> FunctionVersions =
             map sid (case build ?old of Some b \<Rightarrow> function_versions b | None \<Rightarrow> []),
           AssetVersions =
             map sid (carried_assets (build ?old) ''/plugins/plugin-test/1.2.3'' (overwrite ?over))
             @ [sid ?b3, sid ?m3],
           Dependencies = (case build ?old of Some b \<Rightarrow> dependencies b | None \<Rightarrow> []) \<rparr> =
        \<lparr> FunctionVersions = [''ZN00000000000000000000000000000014''],
          AssetVersions = [''ZN00000000000000000000000000000013'',
            ''ZN00000000000000000000000000000004'', ''ZN00000000000000000000000000000005''],
          Dependencies = [(''lodash'', ''4.17.21'')] \<rparr>"
    by code_simp
  from doDeploy_composed_build [OF base3, THEN conjunct1, rule_format, OF run3]
  show "BuildCreate
     \<lparr> FunctionVersions = [''ZN00000000000000000000000000000014''],
       AssetVersions = [''ZN00000000000000000000000000000013'',
         ''ZN00000000000000000000000000000004'', ''ZN00000000000000000000000000000005''],
       Dependencies = [(''lodash'', ''4.17.21'')] \<rparr>
     \<in> set (fst (doDeploy collision_world (JString ''1.2.3'') ?over))"
    unfolding data3 .
  have run4: "checkFilesExist example_world (app_bundlePath example_world)
      \<and> getCredential example_world = Inr ?cred
      \<and> (isPluginsPilot example_options \<longrightarrow>
            new_PluginsApiClient example_world ?cred = Inr () \<and> hasFlag example_world ?cred)
      \<and> getRuntime example_world ?cred = Inr example_runtime
      \<and> environment example_runtime = Some ?env
      \<and> new_ConfigurationClient example_world ?cred = Inr ()
      \<and> new_BuildClient example_world ?cred (service_sid (service example_runtime)) = Inr ()
      \<and> new_AssetClient example_world ?cred (service_sid (service example_runtime)) = Inr ()
      \<and> isSidOfType example_world (service_sid (service example_runtime)) ''ZS''
      \<and> isSidOfType example_world (environment_sid ?env) ''ZE''
      \<and> getFlexUIVersion example_world = Inr ''1.20.0''
      \<and> getUIDependencies example_world = Inr ?deps
      \<and> snd (verifyFlexUIConfiguration example_world ''1.20.0'' ?deps
                (UNBUNDLED_REACT example_world = Some ''true'')) = Inr ()
      \<and> ((case build example_runtime of
             Some b \<Rightarrow> \<not> verifyPath ''/plugins/plugin-test/1.2.4'' b | None \<Rightarrow> False)
            \<longrightarrow> overwrite example_options)
      \<and> upload example_world (app_name example_world)
            (''/plugins/plugin-test/1.2.4'' @ ''/bundle.js'') (app_bundlePath example_world)
            (\<not> isPublic example_options) = Inr ?b4
      \<and> upload example_world (app_name example_world)
            (''/plugins/plugin-test/1.2.4'' @ ''/bundle.js.map'')
            (app_sourceMapPath example_world) (\<not> isPublic example_options) = Inr ?m4
      \<and> registerSid example_world (service_sid (service example_runtime)) = Inr ()"
    by (simp add: example_world_def example_options_def example_runtime_def sid_of_type_def
          verifyFlexUIConfiguration_def io_return_def)
  have data4: "\<lparr> FunctionVersions =
             map sid (case build example_runtime of
                        Some b \<Rightarrow> function_versions b | None \<Rightarrow> []),
           AssetVersions =
             map sid (carried_assets (build example_runtime) ''/plugins/plugin-test/1.2.4''
                        (overwrite example_options))
             @ [sid ?b4, sid ?m4],
           Dependencies = (case build example_runtime of
                             Some b \<Rightarrow> dependencies b | None \<Rightarrow> []) \<rparr> =
        \<lparr> FunctionVersions = [],
          AssetVersions = [''ZN00000000000000000000000000000004'',
            ''ZN00000000000000000000000000000005''],
          Dependencies = [] \<rparr>"
    by code_simp
  from doDeploy_composed_build [OF base4, THEN conjunct1, rule_format, OF run4]
  show "BuildCreate
     \<lparr> FunctionVersions = [],
       AssetVersions = [''ZN00000000000000000000000000000004'',
         ''ZN00000000000000000000000000000005''],
       Dependencies = [] \<rparr>
     \<in> set (fst (doDeploy example_world (JString ''1.2.4'') example_options))"
    unfolding data4 .
  have ups: "upload collision_world (app_name collision_world)
            (''/plugins/plugin-test/1.2.3'' @ ''/bundle.js'') (app_bundlePath collision_world)
            (\<not> isPublic ?over) = Inr ?b3
      \<and> upload collision_world (app_name collision_world)
            (''/plugins/plugin-test/1.2.3'' @ ''/bundle.js.map'')
            (app_sourceMapPath collision_world) (\<not> isPublic ?over) = Inr ?m3"
    using run3 by blast
  have names: "app_name collision_world = ''plugin-test''"
    "app_bundlePath collision_world = ''build/plugin-test.js''"
    "app_sourceMapPath collision_world = ''build/plugin-test.js.map''"
    "isPublic ?over = False" "overwrite ?over = True"
    by (simp_all add: collision_world_def example_world_def example_options_def)
  have kept: "filter (\<lambda>x. path x \<noteq> ''/plugins/plugin-test/1.2.3'' @ ''/bundle.js''
                        \<and> path x \<noteq> ''/plugins/plugin-test/1.2.3'' @ ''/bundle.js.map'')
                (asset_versions example_build) =
              [\<lparr> path = ''/plugins/plugin-other/0.1.0/bundle.js'',
                 sid = ''ZN00000000000000000000000000000013'' \<rparr>]"
    by code_simp
  from doDeploy_composed_build [OF base3, THEN conjunct2, THEN conjunct1, rule_format, OF ups,
    of True "asset_versions example_build" "function_versions example_build"
      "dependencies example_build"]
  show "uploadBundle collision_world ?over
       ''/plugins/plugin-test/1.2.3/bundle.js'' ''/plugins/plugin-test/1.2.3/bundle.js.map''
       True (asset_versions example_build) (function_versions example_build)
       (dependencies example_build) =
     ([AssetUpload ''plugin-test'' ''/plugins/plugin-test/1.2.3/bundle.js''
         ''build/plugin-test.js'' True,
       AssetUpload ''plugin-test'' ''/plugins/plugin-test/1.2.3/bundle.js.map''
         ''build/plugin-test.js.map'' True],
      Inr \<lparr> FunctionVersions = [''ZN00000000000000000000000000000014''],
            AssetVersions = [''ZN00000000000000000000000000000013'',
              ''ZN00000000000000000000000000000004'', ''ZN00000000000000000000000000000005''],
            Dependencies = [(''lodash'', ''4.17.21'')] \<rparr>)"
    unfolding names kept by (simp add: example_build_def)
qed

end
